theory Spec2Isabelle
  imports Main "HOL-Library.List_Lexorder" "HOL-Library.Word"
begin

section \<open>Python strings\<close>

text \<open>
  A Python \<open>str\<close> is a sequence of Unicode code points, and \<open>len\<close> counts code points.
  A code point is a natural number here; an ASCII literal of the source is written
  \<open>py ''...''\<close>, and a character outside ASCII by its number (the ellipsis U+2026 is 8230).
\<close>

type_synonym pystr = "nat list"

abbreviation py :: "string \<Rightarrow> pystr" where
  "py cs \<equiv> map of_char cs"

text \<open>
  \<open>is_space\<close> is the whitespace test of the Python runtime for \<open>str\<close>: the one behind
  \<open>\s\<close> in a \<open>str\<close> pattern of \<open>re\<close> and behind \<open>str.strip()\<close> without argument.
\<close>

definition is_space :: "nat \<Rightarrow> bool" where
  "is_space c \<longleftrightarrow>
     (9 \<le> c \<and> c \<le> 13) \<or> (28 \<le> c \<and> c \<le> 32) \<or> c = 133 \<or> c = 160 \<or> c = 5760 \<or>
     (8192 \<le> c \<and> c \<le> 8202) \<or> c = 8232 \<or> c = 8233 \<or> c = 8239 \<or> c = 8287 \<or> c = 12288"

text \<open>\<open>re.sub(r"\s+", " ", s)\<close>: every maximal run of whitespace becomes one U+0020. The
  flag says whether the scanner is inside a run whose replacement is already written.\<close>

fun sub_ws :: "bool \<Rightarrow> pystr \<Rightarrow> pystr" where
  "sub_ws in_run [] = []"
| "sub_ws in_run (c # cs) =
     (if is_space c then (if in_run then sub_ws True cs else 32 # sub_ws True cs)
      else c # sub_ws False cs)"

definition py_strip :: "pystr \<Rightarrow> pystr" where
  "py_strip s = rev (dropWhile is_space (rev (dropWhile is_space s)))"

text \<open>\<open>sep.join(xs)\<close>.\<close>

fun py_join :: "pystr \<Rightarrow> pystr list \<Rightarrow> pystr" where
  "py_join sep [] = []"
| "py_join sep [x] = x"
| "py_join sep (x # y # ys) = x @ sep @ py_join sep (y # ys)"

definition startswith :: "pystr \<Rightarrow> pystr \<Rightarrow> bool" where
  "startswith s p \<longleftrightarrow> take (length p) s = p"

text \<open>\<open>s.replace(old, new)\<close>: the occurrences of \<open>old\<close> are replaced from the left, without
  overlap; an empty \<open>old\<close> matches before every character and at the end.\<close>

function py_replace :: "pystr \<Rightarrow> pystr \<Rightarrow> pystr \<Rightarrow> pystr" where
  "py_replace [] old new = (if old = [] then new else [])"
| "py_replace (c # cs) old new =
     (if old = [] then new @ c # py_replace cs old new
      else if startswith (c # cs) old then new @ py_replace (drop (length old) (c # cs)) old new
      else c # py_replace cs old new)"
  by pat_completeness auto
termination
  by (relation "measure (\<lambda>(s, old, new). length s)") auto

text \<open>\<open>a or b\<close> on strings: the empty string is false.\<close>

definition py_or :: "pystr \<Rightarrow> pystr \<Rightarrow> pystr" where
  "py_or a b = (if a \<noteq> [] then a else b)"

text \<open>\<open>str(n)\<close> for a non-negative integer: its decimal digits.\<close>

fun str_nat :: "nat \<Rightarrow> pystr" where
  "str_nat n = (if n < 10 then [48 + n] else str_nat (n div 10) @ [48 + n mod 10])"

declare str_nat.simps [simp del]

text \<open>\<open>s[:n]\<close>: a negative bound counts from the end.\<close>

definition slice_to :: "pystr \<Rightarrow> int \<Rightarrow> pystr" where
  "slice_to s n = (if n < 0 then take (nat (int (length s) + n)) s else take (nat n) s)"

text \<open>\<open>s.rsplit(" ", 1)[0]\<close>: what stands before the last U+0020, or all of \<open>s\<close> when it
  has none.\<close>

definition rsplit_space_head :: "pystr \<Rightarrow> pystr" where
  "rsplit_space_head s =
     (if 32 \<in> set s then rev (tl (dropWhile (\<lambda>c. c \<noteq> 32) (rev s))) else s)"

section \<open>Search records\<close>

text \<open>One entry of the index: the dictionary that every extractor builds, with its seven
  keys.\<close>

record entry =
  e_id :: pystr
  e_title :: pystr
  e_content :: pystr
  e_excerpt :: pystr
  e_url :: pystr
  e_type :: pystr
  e_type_label :: pystr

section \<open>The document tree\<close>

text \<open>
  The parse tree that \<open>BeautifulSoup(..., "html.parser")\<close> returns. An element has a name,
  an attribute dictionary (an association list with one entry per attribute name) and its
  children in document order. \<open>Text\<close> is a string of the page that \<open>get_text\<close> yields;
  \<open>Hidden\<close> is one that it does not (a comment, a doctype, the body of a script). The
  document itself is the root element, which has no attributes.
\<close>

datatype node =
    Text pystr
  | Hidden pystr
  | Elem pystr "(pystr \<times> pystr) list" "node list"

text \<open>\<open>el.get_text(separator=sep)\<close>: the strings below the element, in document order,
  joined by the separator.\<close>

fun strings :: "node \<Rightarrow> pystr list" where
  "strings (Text s) = [s]"
| "strings (Hidden s) = []"
| "strings (Elem n a cs) = concat (map strings cs)"

definition get_text :: "pystr \<Rightarrow> node \<Rightarrow> pystr" where
  "get_text sep el = py_join sep (strings el)"

text \<open>\<open>el.get(k)\<close>, which is \<open>None\<close> for a missing attribute, \<open>el.get(k, d)\<close> and
  \<open>el[k]\<close>; the source subscripts only where the selector has matched the attribute or
  \<open>get\<close> has returned it, so the subscript never raises and reads as \<open>get\<close> does.\<close>

fun attrs :: "node \<Rightarrow> (pystr \<times> pystr) list" where
  "attrs (Elem n a cs) = a"
| "attrs _ = []"

definition get :: "node \<Rightarrow> pystr \<Rightarrow> pystr option" where
  "get el k = map_of (attrs el) k"

definition get_default :: "node \<Rightarrow> pystr \<Rightarrow> pystr \<Rightarrow> pystr" where
  "get_default el k d = (case get el k of None \<Rightarrow> d | Some v \<Rightarrow> v)"

text \<open>The proper descendants of a node, in document order: what \<open>select\<close> searches.\<close>

fun descendants :: "node \<Rightarrow> node list" where
  "descendants (Elem n a cs) = concat (map (\<lambda>c. c # descendants c) cs)"
| "descendants (Text s) = []"
| "descendants (Hidden s) = []"

text \<open>The value of \<open>class\<close> is a list of names, separated by whitespace.\<close>

fun split_ws :: "pystr \<Rightarrow> pystr \<Rightarrow> pystr list" where
  "split_ws cur [] = (if cur = [] then [] else [cur])"
| "split_ws cur (c # cs) =
     (if is_space c then (if cur = [] then [] else [cur]) @ split_ws [] cs
      else split_ws (cur @ [c]) cs)"

text \<open>The simple selectors of the source: \<open>.name\<close>, \<open>tag\<close> and \<open>tag[attr]\<close>.\<close>

fun has_class :: "pystr \<Rightarrow> node \<Rightarrow> bool" where
  "has_class c (Elem n a cs) = (c \<in> set (split_ws [] (get_default (Elem n a cs) (py ''class'') [])))"
| "has_class c _ = False"

fun is_tag :: "pystr \<Rightarrow> node \<Rightarrow> bool" where
  "is_tag t (Elem n a cs) = (n = t)"
| "is_tag t _ = False"

definition tag_with_attr :: "pystr \<Rightarrow> pystr \<Rightarrow> node \<Rightarrow> bool" where
  "tag_with_attr t k el \<longleftrightarrow> is_tag t el \<and> get el k \<noteq> None"

definition select :: "(node \<Rightarrow> bool) \<Rightarrow> node \<Rightarrow> node list" where
  "select p el = filter p (descendants el)"

definition select_one :: "(node \<Rightarrow> bool) \<Rightarrow> node \<Rightarrow> node option" where
  "select_one p el = (case select p el of [] \<Rightarrow> None | x # xs \<Rightarrow> Some x)"

text \<open>The one compound selector, \<open>.essay-header h1\<close>, is used on the document: the nodes
  that match \<open>p\<close> below a node that matches \<open>anc\<close>. The flag says whether an ancestor
  has matched.\<close>

fun select_below :: "(node \<Rightarrow> bool) \<Rightarrow> (node \<Rightarrow> bool) \<Rightarrow> bool \<Rightarrow> node \<Rightarrow> node list" where
  "select_below anc p inside (Elem n a cs) =
     concat (map (\<lambda>c. (if inside \<and> p c then [c] else []) @ select_below anc p (inside \<or> anc c) c) cs)"
| "select_below anc p inside (Text s) = []"
| "select_below anc p inside (Hidden s) = []"

definition select_one_below :: "(node \<Rightarrow> bool) \<Rightarrow> (node \<Rightarrow> bool) \<Rightarrow> node \<Rightarrow> node option" where
  "select_one_below anc p el =
     (case select_below anc p False el of [] \<Rightarrow> None | x # xs \<Rightarrow> Some x)"

section \<open>The text helpers of the indexer\<close>

definition text_of :: "node option \<Rightarrow> pystr" where
  "text_of el =
     (case el of None \<Rightarrow> [] | Some e \<Rightarrow> py_strip (sub_ws False (get_text [32] e)))"

text \<open>What the normaliser guarantees: no two whitespace characters in a row, and no
  whitespace at either end.\<close>

fun no_ws_run :: "pystr \<Rightarrow> bool" where
  "no_ws_run (a # b # cs) = (\<not> (is_space a \<and> is_space b) \<and> no_ws_run (b # cs))"
| "no_ws_run [a] = True"
| "no_ws_run [] = True"

definition no_ws_ends :: "pystr \<Rightarrow> bool" where
  "no_ws_ends s = (case s of [] \<Rightarrow> True | c # cs \<Rightarrow> \<not> is_space c \<and> \<not> is_space (last s))"

definition truncate :: "pystr \<Rightarrow> int \<Rightarrow> pystr" where
  "truncate s max_len =
     (if int (length s) \<le> max_len then s else rsplit_space_head (slice_to s max_len) @ [8230])"

text \<open>The default of the second parameter, which every call of the source takes.\<close>

abbreviation truncate_default :: "pystr \<Rightarrow> pystr" where
  "truncate_default s \<equiv> truncate s 300"


section \<open>The extractors\<close>

text \<open>The body of the loop of \<open>parse_qa\<close>, for one card.\<close>

definition qa_entry :: "node \<Rightarrow> entry" where
  "qa_entry card_el =
     (let card_id = get_default card_el (py ''id'') [];
          question = text_of (select_one (has_class (py ''qa-question-text'')) card_el);
          question = (if startswith question (py ''#'') then py_strip (drop 1 question)
                      else question);
          content = text_of (select_one (has_class (py ''qa-content'')) card_el)
      in \<lparr>e_id = py ''qa-'' @ card_id,
          e_title = question,
          e_content = content,
          e_excerpt = truncate_default content,
          e_url = py ''qa#'' @ card_id,
          e_type = py ''qa'',
          e_type_label = py ''Q&A''\<rparr>)"

definition parse_qa :: "node \<Rightarrow> entry list" where
  "parse_qa soup = map qa_entry (select (has_class (py ''qa-card'')) soup)"

text \<open>The body of the loop of \<open>parse_arg_cards\<close>, for one card.\<close>

definition arg_entry :: "pystr \<Rightarrow> pystr \<Rightarrow> pystr \<Rightarrow> node \<Rightarrow> entry" where
  "arg_entry page_url type_id type_label card_el =
     (let card_id = get_default card_el (py ''id'') [];
          num = text_of (select_one (has_class (py ''arg-num'')) card_el);
          claim = text_of (select_one (has_class (py ''arg-claim'')) card_el);
          label = text_of (select_one (has_class (py ''arg-label'')) card_el);
          title = py_strip (num @ py '' '' @ claim);
          title = (if label \<noteq> [] then title @ py '' ('' @ label @ py '')'' else title);
          body = py_or (text_of (select_one (has_class (py ''arg-vastaus'')) card_el))
                       (text_of (select_one (has_class (py ''arg-body'')) card_el))
      in \<lparr>e_id = type_id @ py ''-'' @ card_id,
          e_title = title,
          e_content = body,
          e_excerpt = truncate_default body,
          e_url = page_url @ py ''#'' @ card_id,
          e_type = type_id,
          e_type_label = type_label\<rparr>)"

definition parse_arg_cards :: "node \<Rightarrow> pystr \<Rightarrow> pystr \<Rightarrow> pystr \<Rightarrow> entry list" where
  "parse_arg_cards soup page_url type_id type_label =
     map (arg_entry page_url type_id type_label) (select (has_class (py ''arg-card'')) soup)"

text \<open>\<open>a or b\<close> on elements: an element is always true, so the first one present.\<close>

definition el_or :: "node option \<Rightarrow> node option \<Rightarrow> node option" where
  "el_or a b = (case a of None \<Rightarrow> b | Some x \<Rightarrow> Some x)"

text \<open>The body of the loop of \<open>parse_essay\<close>, for the section at index \<open>i\<close>.\<close>

definition section_entry :: "pystr \<Rightarrow> pystr \<Rightarrow> pystr \<Rightarrow> nat \<times> node \<Rightarrow> entry" where
  "section_entry page_url type_id type_label p =
     (let i = fst p; section = snd p;
          h2 = select_one (is_tag (py ''h2'')) section;
          h3 = select_one (is_tag (py ''h3'')) section;
          heading = py_or (text_of h2) (py_or (text_of h3) (py ''Osio '' @ str_nat (i + 1)));
          anchor =
            (case el_or h2 h3 of
               None \<Rightarrow> []
             | Some heading_el \<Rightarrow>
                 (case select_one (tag_with_attr (py ''a'') (py ''id'')) heading_el of
                    Some a \<Rightarrow> py ''#'' @ get_default a (py ''id'') []
                  | None \<Rightarrow>
                      (if get_default heading_el (py ''id'') [] \<noteq> []
                       then py ''#'' @ get_default heading_el (py ''id'') []
                       else [])));
          content = text_of (Some section)
      in \<lparr>e_id = type_id @ py ''-s'' @ str_nat i,
          e_title = heading,
          e_content = content,
          e_excerpt = truncate_default content,
          e_url = page_url @ anchor,
          e_type = type_id,
          e_type_label = type_label\<rparr>)"

definition parse_essay :: "node \<Rightarrow> pystr \<Rightarrow> pystr \<Rightarrow> pystr \<Rightarrow> entry list" where
  "parse_essay soup page_url type_id type_label =
     (case select_one (has_class (py ''essay-body'')) soup of
        None \<Rightarrow> []
      | Some essay_body \<Rightarrow>
          (let sections = select (is_tag (py ''section'')) essay_body
           in if sections = [] then
                (let content = text_of (Some essay_body);
                     h1 = select_one_below (has_class (py ''essay-header'')) (is_tag (py ''h1'')) soup
                 in [\<lparr>e_id = type_id @ py ''-full'',
                      e_title = (case h1 of Some h \<Rightarrow> text_of h1 | None \<Rightarrow> type_label),
                      e_content = content,
                      e_excerpt = truncate_default content,
                      e_url = page_url,
                      e_type = type_id,
                      e_type_label = type_label\<rparr>])
              else map (section_entry page_url type_id type_label) (enumerate 0 sections)))"

text \<open>The body of the loop of \<open>parse_sisallys\<close>: a chapter without a title element is
  passed over (\<open>continue\<close>). U+2014 is the dash between the section items, and U+00E4 the
  fourth letter of the label.\<close>

definition sisallys_entry :: "node \<Rightarrow> entry option" where
  "sisallys_entry chapter =
     (case select_one (has_class (py ''toc-chapter-title'')) chapter of
        None \<Rightarrow> None
      | Some title_el \<Rightarrow>
          (let title = text_of (Some title_el);
               badge = select_one (has_class (py ''toc-badge'')) title_el;
               badge_text = (case badge of Some b \<Rightarrow> text_of badge | None \<Rightarrow> []);
               link = select_one (tag_with_attr (py ''a'') (py ''href'')) title_el;
               url = (case link of Some l \<Rightarrow> get_default l (py ''href'') []
                      | None \<Rightarrow> py ''sisallys'');
               sections_el = select_one (has_class (py ''toc-sections'')) chapter;
               section_items =
                 (case sections_el of
                    Some se \<Rightarrow> map (\<lambda>li. text_of (Some li)) (select (is_tag (py ''li'')) se)
                  | None \<Rightarrow> []);
               content = (if section_items \<noteq> [] then py_join [32, 8212, 32] section_items
                          else title)
           in Some \<lparr>e_id = py ''toc-'' @ url,
                    e_title = py_strip (py_replace title badge_text []),
                    e_content = content,
                    e_excerpt = truncate_default content,
                    e_url = (if startswith url (py ''http'') then url else py ''sisallys''),
                    e_type = py ''toc'',
                    e_type_label = py ''Sis'' @ [228] @ py ''llys''\<rparr>))"

definition parse_sisallys :: "node \<Rightarrow> entry list" where
  "parse_sisallys soup =
     List.map_filter sisallys_entry (select (has_class (py ''toc-chapter'')) soup)"

text \<open>The body of the loop of \<open>parse_terms\<close>: a term without \<open>h3\<close> is passed over.
  \<open>str.lower\<close> is the case mapping of the Python runtime, a table of the Unicode database;
  it is the parameter \<open>lower\<close>.\<close>

definition term_entry :: "(pystr \<Rightarrow> pystr) \<Rightarrow> node \<Rightarrow> entry option" where
  "term_entry lower term =
     (let h3 = select_one (is_tag (py ''h3'')) term;
          p = select_one (is_tag (py ''p'')) term
      in case h3 of
           None \<Rightarrow> None
         | Some h \<Rightarrow>
             (let title = text_of h3;
                  content = (case p of Some q \<Rightarrow> text_of p | None \<Rightarrow> [])
              in Some \<lparr>e_id = py ''term-'' @ py_replace (lower title) (py '' '') (py ''-''),
                       e_title = title,
                       e_content = content,
                       e_excerpt = truncate_default content,
                       e_url = py ''/sanakirja'',
                       e_type = py ''termi'',
                       e_type_label = py ''K'' @ [228] @ py ''site''\<rparr>))"

definition parse_terms :: "(pystr \<Rightarrow> pystr) \<Rightarrow> node \<Rightarrow> entry list" where
  "parse_terms lower soup =
     List.map_filter (term_entry lower) (select (has_class (py ''term'')) soup)"


section \<open>Conditions of the specification\<close>

text \<open>The children of an element.\<close>

fun children :: "node \<Rightarrow> node list" where
  "children (Elem n a cs) = cs"
| "children _ = []"

text \<open>The condition of the specification on the essay body: none of its children is a
  \<open>section\<close> element.\<close>

definition spec_no_section_children :: "node \<Rightarrow> bool" where
  "spec_no_section_children el = list_all (\<lambda>c. \<not> is_tag (py ''section'') c) (children el)"

text \<open>The condition of the specification on a link of the table of contents: a
  fully-qualified external link, one with the scheme and the two slashes.\<close>

definition spec_fully_qualified :: "pystr \<Rightarrow> bool" where
  "spec_fully_qualified url \<longleftrightarrow> startswith url (py ''http://'') \<or> startswith url (py ''https://'')"

text \<open>The lines of a text, and the condition of the specification on the indentation of
  the output: a line that is indented is indented by more than one space.\<close>

fun lines_of :: "pystr \<Rightarrow> pystr \<Rightarrow> pystr list" where
  "lines_of cur [] = [cur]"
| "lines_of cur (c # cs) = (if c = 10 then cur # lines_of [] cs else lines_of (cur @ [c]) cs)"

definition spec_multi_space_indent :: "pystr \<Rightarrow> bool" where
  "spec_multi_space_indent out =
     list_all (\<lambda>l. startswith l (py '' '') = startswith l (py ''  '')) (lines_of [] out)"

section \<open>Serialisation\<close>

text \<open>
  \<open>json.dumps(obj, ensure_ascii, indent, sort_keys)\<close> of the standard library, for the
  values the indexer passes: a list of dictionaries from strings to strings. A dictionary
  is the list of its items in insertion order; strings compare by code point.
\<close>

definition items :: "entry \<Rightarrow> (pystr \<times> pystr) list" where
  "items e =
     [(py ''id'', e_id e), (py ''title'', e_title e), (py ''content'', e_content e),
      (py ''excerpt'', e_excerpt e), (py ''url'', e_url e), (py ''type'', e_type e),
      (py ''type_label'', e_type_label e)]"

definition hex_digit :: "nat \<Rightarrow> nat" where
  "hex_digit d = (if d < 10 then 48 + d else 87 + d)"

definition hex4 :: "nat \<Rightarrow> pystr" where
  "hex4 n = map hex_digit [n div 4096 mod 16, n div 256 mod 16, n div 16 mod 16, n mod 16]"

text \<open>The escape of one character inside a JSON string: 92 is the backslash and 34 the
  double quote. With \<open>ensure_ascii\<close> every character outside U+0020..U+007E is written
  as \<open>\uXXXX\<close> (two of them, a surrogate pair, above U+FFFF); without it only the quote,
  the backslash and the control characters below U+0020 are escaped.\<close>

definition escape_char :: "bool \<Rightarrow> nat \<Rightarrow> pystr" where
  "escape_char ensure_ascii c =
     (if c = 34 then [92, 34]
      else if c = 92 then [92, 92]
      else if c = 10 then [92, 110]
      else if c = 13 then [92, 114]
      else if c = 9 then [92, 116]
      else if c = 12 then [92, 102]
      else if c = 8 then [92, 98]
      else if c < 32 then [92, 117] @ hex4 c
      else if ensure_ascii \<and> 126 < c then
        (if c < 65536 then [92, 117] @ hex4 c
         else [92, 117] @ hex4 (55296 + (c - 65536) div 1024 mod 1024) @
              [92, 117] @ hex4 (56320 + (c - 65536) mod 1024))
      else [c])"

definition encode_str :: "bool \<Rightarrow> pystr \<Rightarrow> pystr" where
  "encode_str ensure_ascii s = [34] @ concat (map (escape_char ensure_ascii) s) @ [34]"

text \<open>A line feed and the indentation of a nesting level: \<open>indent\<close> spaces for each.\<close>

definition newline_indent :: "nat \<Rightarrow> nat \<Rightarrow> pystr" where
  "newline_indent indent level = 10 # replicate (indent * level) 32"

definition dumps_dict :: "bool \<Rightarrow> nat \<Rightarrow> bool \<Rightarrow> nat \<Rightarrow> (pystr \<times> pystr) list \<Rightarrow> pystr" where
  "dumps_dict ensure_ascii indent sort_keys level dct =
     (if dct = [] then py ''{}''
      else py ''{'' @ newline_indent indent (level + 1) @
           py_join (py '','' @ newline_indent indent (level + 1))
             (map (\<lambda>kv. encode_str ensure_ascii (fst kv) @ py '': '' @ encode_str ensure_ascii (snd kv))
                (if sort_keys then sort_key fst dct else dct)) @
           newline_indent indent level @ py ''}'')"

definition json_dumps :: "bool \<Rightarrow> nat \<Rightarrow> bool \<Rightarrow> (pystr \<times> pystr) list list \<Rightarrow> pystr" where
  "json_dumps ensure_ascii indent sort_keys lst =
     (if lst = [] then py ''[]''
      else py ''['' @ newline_indent indent 1 @
           py_join (py '','' @ newline_indent indent 1)
             (map (dumps_dict ensure_ascii indent sort_keys 1) lst) @
           newline_indent indent 0 @ py '']'')"

text \<open>The layout of one record in the output: its keys in alphabetical order, each on a
  line of its own after two spaces, and one space before the closing brace.\<close>

definition entry_json :: "entry \<Rightarrow> pystr" where
  "entry_json e =
     py ''{'' @ [10] @
     py ''  '' @ encode_str False (py ''content'') @ py '': '' @ encode_str False (e_content e) @ py '','' @ [10] @
     py ''  '' @ encode_str False (py ''excerpt'') @ py '': '' @ encode_str False (e_excerpt e) @ py '','' @ [10] @
     py ''  '' @ encode_str False (py ''id'') @ py '': '' @ encode_str False (e_id e) @ py '','' @ [10] @
     py ''  '' @ encode_str False (py ''title'') @ py '': '' @ encode_str False (e_title e) @ py '','' @ [10] @
     py ''  '' @ encode_str False (py ''type'') @ py '': '' @ encode_str False (e_type e) @ py '','' @ [10] @
     py ''  '' @ encode_str False (py ''type_label'') @ py '': '' @ encode_str False (e_type_label e) @ py '','' @ [10] @
     py ''  '' @ encode_str False (py ''url'') @ py '': '' @ encode_str False (e_url e) @ [10] @
     py '' }''"

text \<open>The exceptions that a run can raise: \<open>read_text\<close> on a page that is not UTF-8, and
  \<open>write_text\<close> on a text that has no UTF-8 encoding.\<close>

datatype error = UnicodeDecodeError | UnicodeEncodeError

text \<open>\<open>str.encode("utf-8")\<close>, one to four bytes for a code point. A surrogate (U+D800 to
  U+DFFF) has no encoding: the encoder raises.\<close>

type_synonym byte = "8 word"

definition utf8_char :: "nat \<Rightarrow> byte list" where
  "utf8_char c =
     (if c < 128 then [of_nat c]
      else if c < 2048 then [of_nat (192 + c div 64), of_nat (128 + c mod 64)]
      else if c < 65536 then
        [of_nat (224 + c div 4096), of_nat (128 + c div 64 mod 64), of_nat (128 + c mod 64)]
      else [of_nat (240 + c div 262144), of_nat (128 + c div 4096 mod 64),
            of_nat (128 + c div 64 mod 64), of_nat (128 + c mod 64)])"

definition encodable :: "nat \<Rightarrow> bool" where
  "encodable c \<longleftrightarrow> (c < 55296 \<or> 57343 < c) \<and> c < 1114112"

definition utf8_encode :: "pystr \<Rightarrow> byte list option" where
  "utf8_encode s = (if list_all encodable s then Some (concat (map utf8_char s)) else None)"

text \<open>\<open>bytes.decode("utf-8")\<close>, strict: a byte that starts no sequence, a sequence cut
  short, an overlong form, a surrogate and a code point above U+10FFFF all raise, which is
  \<open>None\<close> here. \<open>continuation\<close> is the range of a trailing byte, and \<open>second_ok\<close> the
  narrower range of the byte after the lead bytes E0, ED, F0 and F4.\<close>

definition continuation :: "byte \<Rightarrow> bool" where
  "continuation b \<longleftrightarrow> 128 \<le> unat b \<and> unat b \<le> 191"

definition second_ok :: "byte \<Rightarrow> byte \<Rightarrow> bool" where
  "second_ok b c \<longleftrightarrow>
     (if unat b = 224 then 160 else if unat b = 240 then 144 else 128) \<le> unat c \<and>
     unat c \<le> (if unat b = 237 then 159 else if unat b = 244 then 143 else 191)"

fun utf8_decode :: "byte list \<Rightarrow> pystr option" where
  "utf8_decode [] = Some []"
| "utf8_decode (b # bs) =
     (if unat b < 128 then map_option ((#) (unat b)) (utf8_decode bs)
      else if 194 \<le> unat b \<and> unat b \<le> 223 then
        (case bs of
           c1 # r \<Rightarrow>
             if continuation c1
             then map_option ((#) ((unat b - 192) * 64 + (unat c1 - 128))) (utf8_decode r)
             else None
         | [] \<Rightarrow> None)
      else if 224 \<le> unat b \<and> unat b \<le> 239 then
        (case bs of
           c1 # c2 # r \<Rightarrow>
             if second_ok b c1 \<and> continuation c2
             then map_option
                    ((#) ((unat b - 224) * 4096 + (unat c1 - 128) * 64 + (unat c2 - 128)))
                    (utf8_decode r)
             else None
         | _ \<Rightarrow> None)
      else if 240 \<le> unat b \<and> unat b \<le> 244 then
        (case bs of
           c1 # c2 # c3 # r \<Rightarrow>
             if second_ok b c1 \<and> continuation c2 \<and> continuation c3
             then map_option
                    ((#) ((unat b - 240) * 262144 + (unat c1 - 128) * 4096 +
                          (unat c2 - 128) * 64 + (unat c3 - 128)))
                    (utf8_decode r)
             else None
         | _ \<Rightarrow> None)
      else None)"

text \<open>The line ends of a file read in text mode: \<open>\r\n\<close> and a lone \<open>\r\<close> become \<open>\n\<close>.
  The flag says whether the character before was \<open>\r\<close>.\<close>

fun universal_newlines :: "bool \<Rightarrow> pystr \<Rightarrow> pystr" where
  "universal_newlines after_cr [] = []"
| "universal_newlines after_cr (c # cs) =
     (if c = 13 then 10 # universal_newlines True cs
      else if c = 10 then
        (if after_cr then universal_newlines False cs else 10 # universal_newlines False cs)
      else c # universal_newlines False cs)"

section \<open>The driver\<close>

text \<open>
  The site directory: a file name is mapped to the bytes of the file, or to \<open>None\<close> when
  there is no such file. \<open>html.parser\<close> is the parameter \<open>parser\<close>, a function of the
  text of a page. What the program prints is a list of lines. Line ends are those of a
  POSIX system, where \<open>write_text\<close> leaves \<open>\n\<close> as it is.
\<close>

type_synonym site = "pystr \<Rightarrow> byte list option"

definition OUTPUT :: pystr where
  "OUTPUT = py ''search-index.json''"

text \<open>\<open>path.read_text(encoding="utf-8")\<close>, and \<open>path.write_text(text, encoding="utf-8")\<close>,
  which opens the file for writing, so empties it, before it encodes the text.\<close>

definition read_text :: "byte list \<Rightarrow> error + pystr" where
  "read_text bytes =
     (case utf8_decode bytes of
        None \<Rightarrow> Inl UnicodeDecodeError
      | Some s \<Rightarrow> Inr (universal_newlines False s))"

definition write_text :: "site \<Rightarrow> pystr \<Rightarrow> pystr \<Rightarrow> site \<times> error option" where
  "write_text files path s =
     (case utf8_encode s of
        None \<Rightarrow> (files(path \<mapsto> []), Some UnicodeEncodeError)
      | Some bytes \<Rightarrow> (files(path \<mapsto> bytes), None))"

text \<open>\<open>load_soup\<close>: the lines it prints, and the exception it raises or what it returns.\<close>

definition load_soup ::
  "(pystr \<Rightarrow> node) \<Rightarrow> site \<Rightarrow> pystr \<Rightarrow> pystr list \<times> (error + node option)" where
  "load_soup parser files filename =
     (case files filename of
        None \<Rightarrow> ([py ''  Skipping '' @ filename @ py '' (not found)''], Inr None)
      | Some bytes \<Rightarrow>
          (case read_text bytes of
             Inl e \<Rightarrow> ([], Inl e)
           | Inr s \<Rightarrow> ([], Inr (Some (parser s)))))"

text \<open>One of the five blocks of \<open>main\<close>: the announcement, the load, and when the page is
  there the extraction, the count and the extension of \<open>all_entries\<close>. The state is the
  printed lines and either the exception that has ended the run or \<open>all_entries\<close>; after
  an exception no block runs.\<close>

definition stage ::
  "(pystr \<Rightarrow> node) \<Rightarrow> site \<Rightarrow> pystr \<Rightarrow> pystr \<Rightarrow> (node \<Rightarrow> entry list) \<Rightarrow> pystr \<Rightarrow>
   pystr list \<times> (error + entry list) \<Rightarrow> pystr list \<times> (error + entry list)" where
  "stage parser files announce filename extract unit st =
     (case snd st of
        Inl e \<Rightarrow> st
      | Inr all_entries \<Rightarrow>
          (let printed = fst st @ [announce] @ fst (load_soup parser files filename)
           in case snd (load_soup parser files filename) of
                Inl e \<Rightarrow> (printed, Inl e)
              | Inr None \<Rightarrow> (printed, Inr all_entries)
              | Inr (Some soup) \<Rightarrow>
                  (let entries = extract soup
                   in (printed @ [py ''  '' @ str_nat (length entries) @ unit],
                       Inr (all_entries @ entries)))))"

definition stages ::
  "(pystr \<Rightarrow> node) \<Rightarrow> (pystr \<Rightarrow> pystr) \<Rightarrow> site \<Rightarrow> pystr list \<times> (error + entry list)" where
  "stages parser lower files =
     (stage parser files (py ''Indexing sanakirja.html terms...'') (py ''sanakirja.html'')
        (parse_terms lower) (py '' terms'')
     (stage parser files (py ''Indexing kannustinketju.html...'') (py ''kannustinketju.html'')
        (\<lambda>soup. parse_essay soup (py ''kannustinketju'') (py ''kannustin'') (py ''Kannustinketju''))
        (py '' sections'')
     (stage parser files (py ''Indexing kielen-valta.html...'') (py ''kielen-valta.html'')
        (\<lambda>soup. parse_arg_cards soup (py ''kielen-valta'') (py ''kieli'') (py ''Kielen valta''))
        (py '' language patterns'')
     (stage parser files (py ''Indexing argumentit.html...'') (py ''argumentit.html'')
        (\<lambda>soup. parse_arg_cards soup (py ''argumentit'') (py ''arg'') (py ''Systeemivirhe''))
        (py '' arguments'')
     (stage parser files (py ''Indexing qa.html...'') (py ''qa.html'')
        parse_qa (py '' Q&A cards'')
     ([], Inr []))))))"

text \<open>\<open>main\<close>: the five stages, then the write of the output file. The result is the
  printed lines, the site directory after the run and the exception that has ended the
  run, if any. The closing status line (the absolute path of the output and its size in
  KB) is left out of the printed lines.\<close>

definition main ::
  "(pystr \<Rightarrow> node) \<Rightarrow> (pystr \<Rightarrow> pystr) \<Rightarrow> site \<Rightarrow> pystr list \<times> site \<times> error option" where
  "main parser lower files =
     (let st = stages parser lower files
      in case snd st of
           Inl e \<Rightarrow> (fst st, files, Some e)
         | Inr all_entries \<Rightarrow>
             (fst st, write_text files OUTPUT (json_dumps False 1 True (map items all_entries))))"

text \<open>The page file and the type tag of each of the five stages of \<open>main\<close>.\<close>

definition stage_pages :: "(pystr \<times> pystr) list" where
  "stage_pages =
     [(py ''qa.html'', py ''qa''), (py ''argumentit.html'', py ''arg''),
      (py ''kielen-valta.html'', py ''kieli''), (py ''kannustinketju.html'', py ''kannustin''),
      (py ''sanakirja.html'', py ''termi'')]"

text \<open>A page that is there and can be read gives its parse tree.\<close>

definition page_soup :: "(pystr \<Rightarrow> node) \<Rightarrow> site \<Rightarrow> pystr \<Rightarrow> node option" where
  "page_soup parser files filename =
     (case files filename of
        None \<Rightarrow> None
      | Some bytes \<Rightarrow> (case read_text bytes of Inl e \<Rightarrow> None | Inr s \<Rightarrow> Some (parser s)))"

text \<open>A page file that is not there, or is UTF-8; and every page file being so.\<close>

definition page_readable :: "site \<Rightarrow> pystr \<Rightarrow> bool" where
  "page_readable files filename =
     (case files filename of None \<Rightarrow> True | Some bytes \<Rightarrow> utf8_decode bytes \<noteq> None)"

definition pages_readable :: "site \<Rightarrow> bool" where
  "pages_readable files = list_all (\<lambda>p. page_readable files (fst p)) stage_pages"

text \<open>What one stage appends to \<open>all_entries\<close>, and what the five stages collect when
  every page can be read.\<close>

definition stage_entries :: "(pystr \<Rightarrow> node) \<Rightarrow> site \<Rightarrow> pystr \<Rightarrow> (node \<Rightarrow> entry list) \<Rightarrow> entry list" where
  "stage_entries parser files filename extract =
     (case page_soup parser files filename of None \<Rightarrow> [] | Some soup \<Rightarrow> extract soup)"

definition collected :: "(pystr \<Rightarrow> node) \<Rightarrow> (pystr \<Rightarrow> pystr) \<Rightarrow> site \<Rightarrow> entry list" where
  "collected parser lower files =
     stage_entries parser files (py ''qa.html'') parse_qa @
     stage_entries parser files (py ''argumentit.html'')
       (\<lambda>soup. parse_arg_cards soup (py ''argumentit'') (py ''arg'') (py ''Systeemivirhe'')) @
     stage_entries parser files (py ''kielen-valta.html'')
       (\<lambda>soup. parse_arg_cards soup (py ''kielen-valta'') (py ''kieli'') (py ''Kielen valta'')) @
     stage_entries parser files (py ''kannustinketju.html'')
       (\<lambda>soup. parse_essay soup (py ''kannustinketju'') (py ''kannustin'') (py ''Kannustinketju'')) @
     stage_entries parser files (py ''sanakirja.html'') (parse_terms lower)"

text \<open>The condition of the specification on the input: on each page that exists, the
  elements of the class of its cards or terms all carry an \<open>id\<close>, and no two the same.\<close>

definition spec_distinct_ids :: "pystr \<Rightarrow> node \<Rightarrow> bool" where
  "spec_distinct_ids cls soup \<longleftrightarrow>
     list_all (\<lambda>el. get el (py ''id'') \<noteq> None) (select (has_class cls) soup) \<and>
     distinct (map (\<lambda>el. get el (py ''id'')) (select (has_class cls) soup))"

definition spec_page_ids :: "(pystr \<Rightarrow> node) \<Rightarrow> site \<Rightarrow> pystr \<Rightarrow> pystr \<Rightarrow> bool" where
  "spec_page_ids parser files filename cls =
     (case page_soup parser files filename of
        None \<Rightarrow> True
      | Some soup \<Rightarrow> spec_distinct_ids cls soup)"

definition spec_valid_input :: "(pystr \<Rightarrow> node) \<Rightarrow> site \<Rightarrow> bool" where
  "spec_valid_input parser files \<longleftrightarrow>
     spec_page_ids parser files (py ''qa.html'') (py ''qa-card'') \<and>
     spec_page_ids parser files (py ''argumentit.html'') (py ''arg-card'') \<and>
     spec_page_ids parser files (py ''kielen-valta.html'') (py ''arg-card'') \<and>
     spec_page_ids parser files (py ''sanakirja.html'') (py ''term'')"

text \<open>The keys of the glossary terms of a page: for each term with a heading, the text of
  the heading in lower case with a hyphen for each space, as \<open>parse_terms\<close> computes it.\<close>

definition term_keys :: "(pystr \<Rightarrow> pystr) \<Rightarrow> node \<Rightarrow> pystr list" where
  "term_keys lower soup =
     map (\<lambda>h3. py_replace (lower (text_of (Some h3))) (py '' '') (py ''-''))
       (List.map_filter (select_one (is_tag (py ''h3''))) (select (has_class (py ''term'')) soup))"

definition distinct_term_keys :: "(pystr \<Rightarrow> node) \<Rightarrow> (pystr \<Rightarrow> pystr) \<Rightarrow> site \<Rightarrow> bool" where
  "distinct_term_keys parser lower files =
     (case page_soup parser files (py ''sanakirja.html'') of
        None \<Rightarrow> True
      | Some soup \<Rightarrow> distinct (term_keys lower soup))"

text \<open>The number that a string of decimal digits stands for.\<close>

definition digits_value :: "pystr \<Rightarrow> nat" where
  "digits_value ds = foldl (\<lambda>acc d. 10 * acc + (d - 48)) 0 ds"

section \<open>Example pages\<close>

text \<open>Concrete pages on which the extractors are run below.\<close>

definition qa_card_q1 :: node where
  "qa_card_q1 =
     Elem (py ''div'') [(py ''class'', py ''qa-card''), (py ''id'', py ''q1'')]
       [Elem (py ''h3'') [(py ''class'', py ''qa-question-text'')]
          [Text (py ''#Why does this happen?'')],
        Elem (py ''div'') [(py ''class'', py ''qa-content'')]
          [Text (py ''Because X causes Y.'')]]"

definition qa_page :: node where
  "qa_page = Elem (py ''[document]'') [] [Elem (py ''body'') [] [qa_card_q1]]"

definition bare_card :: "pystr \<Rightarrow> pystr \<Rightarrow> node" where
  "bare_card cls body = Elem (py ''div'') [(py ''class'', cls)] [Text body]"

definition bare_page :: "pystr \<Rightarrow> node" where
  "bare_page cls =
     Elem (py ''[document]'') [] [bare_card cls (py ''first''), bare_card cls (py ''second'')]"

definition essay_header :: node where
  "essay_header =
     Elem (py ''header'') [(py ''class'', py ''essay-header'')]
       [Elem (py ''h1'') [] [Text (py ''Introduction'')]]"

definition nested_essay_body :: node where
  "nested_essay_body =
     Elem (py ''div'') [(py ''class'', py ''essay-body'')]
       [Elem (py ''div'') []
          [Elem (py ''section'') [] [Elem (py ''h2'') [] [Text (py ''First'')], Text (py ''Body'')]]]"

definition nested_essay_page :: node where
  "nested_essay_page = Elem (py ''[document]'') [] [essay_header, nested_essay_body]"

definition flat_essay_body :: node where
  "flat_essay_body =
     Elem (py ''div'') [(py ''class'', py ''essay-body'')] [Elem (py ''p'') [] [Text (py ''Some text.'')]]"

definition flat_essay_page :: node where
  "flat_essay_page = Elem (py ''[document]'') [] [essay_header, flat_essay_body]"

definition empty_page :: node where
  "empty_page = Elem (py ''[document]'') [] [Elem (py ''p'') [] [Text (py ''Nothing here.'')]]"

definition toc_chapter :: "node list \<Rightarrow> node" where
  "toc_chapter title_children =
     Elem (py ''div'') [(py ''class'', py ''toc-chapter'')]
       [Elem (py ''div'') [(py ''class'', py ''toc-chapter-title'')] title_children]"

definition toc_link :: "pystr \<Rightarrow> node" where
  "toc_link href = Elem (py ''a'') [(py ''href'', href)] [Text (py ''Luku'')]"

definition toc_page :: "pystr \<Rightarrow> node" where
  "toc_page href = Elem (py ''[document]'') [] [toc_chapter [toc_link href]]"

text \<open>\<open>str.lower\<close> as it acts on ASCII strings, a parser that knows two pages, and a site
  directory with two of the five pages and one other file.\<close>

definition ascii_lower :: "pystr \<Rightarrow> pystr" where
  "ascii_lower s = map (\<lambda>c. if 65 \<le> c \<and> c \<le> 90 then c + 32 else c) s"

definition example_parser :: "pystr \<Rightarrow> node" where
  "example_parser s = (if s = py ''q'' then qa_page else empty_page)"

text \<open>A site directory whose Q&A page is the one byte E4, the letter \<open>U+00E4\<close> in Latin-1,
  and which has no other page.\<close>

definition latin1_site :: site where
  "latin1_site = [py ''qa.html'' \<mapsto> [228]]"

definition example_site :: site where
  "example_site = [py ''qa.html'' \<mapsto> [113], py ''sanakirja.html'' \<mapsto> [], py ''notes.txt'' \<mapsto> [1, 2]]"

text \<open>A record with a character outside ASCII in its title.\<close>

definition example_entry :: entry where
  "example_entry =
     \<lparr>e_id = py ''qa-q1'', e_title = py ''Miksi n'' @ [228] @ py ''in?'',
      e_content = py ''Koska.'', e_excerpt = py ''Koska.'', e_url = py ''qa#q1'',
      e_type = py ''qa'', e_type_label = py ''Q&A''\<rparr>"

text \<open>A glossary page with two terms of distinct \<open>id\<close>, a parser that knows it with a
  repeated and with two different headings, and a site directory for each.\<close>

definition glossary_term :: "pystr \<Rightarrow> pystr \<Rightarrow> node" where
  "glossary_term ident name =
     Elem (py ''div'') [(py ''class'', py ''term''), (py ''id'', ident)]
       [Elem (py ''h3'') [] [Text name], Elem (py ''p'') [] [Text (py ''Selitys.'')]]"

definition glossary_page :: "pystr \<Rightarrow> pystr \<Rightarrow> node" where
  "glossary_page first second =
     Elem (py ''[document]'') []
       [glossary_term (py ''t1'') first, glossary_term (py ''t2'') second]"

definition glossary_parser :: "pystr \<Rightarrow> node" where
  "glossary_parser s =
     (if s = py ''a'' then glossary_page (py ''Valta'') (py ''Valta'')
      else if s = py ''b'' then glossary_page (py ''Valta'') (py ''Voima'')
      else qa_page)"

definition repeated_term_site :: site where
  "repeated_term_site = [py ''sanakirja.html'' \<mapsto> [97]]"

definition distinct_term_site :: site where
  "distinct_term_site = [py ''qa.html'' \<mapsto> [113], py ''sanakirja.html'' \<mapsto> [98]]"

section \<open>Properties of the text helpers\<close>

lemma sub_ws_True_hd: "sub_ws True s = x # xs \<Longrightarrow> \<not> is_space x"
  by (induction s) (auto split: if_splits)

lemma no_ws_run_sub_ws: "no_ws_run (sub_ws b s)"
proof (induction s arbitrary: b)
  case Nil
  show ?case by simp
next
  case (Cons c cs)
  have run: "no_ws_run (32 # sub_ws True cs)"
  proof (cases "sub_ws True cs")
    case Nil
    then show ?thesis by simp
  next
    case (Cons x xs)
    with sub_ws_True_hd [OF Cons] Cons.IH [of True] show ?thesis by simp
  qed
  have plain: "no_ws_run (c # sub_ws False cs)" if "\<not> is_space c"
  proof (cases "sub_ws False cs")
    case Nil
    then show ?thesis by simp
  next
    case (Cons x xs)
    with that Cons.IH [of False] show ?thesis by simp
  qed
  show ?case using run plain Cons.IH [of True] by simp
qed

lemma no_ws_run_append: "no_ws_run (xs @ ys) \<Longrightarrow> no_ws_run xs \<and> no_ws_run ys"
proof (induction xs rule: no_ws_run.induct)
  case (1 a b cs)
  then show ?case by simp
next
  case (2 a)
  then show ?case by (cases ys) simp_all
next
  case 3
  then show ?case by simp
qed

lemma py_strip_prefix:
  "dropWhile is_space s = py_strip s @ rev (takeWhile is_space (rev (dropWhile is_space s)))"
  unfolding py_strip_def by (metis rev_append rev_rev_ident takeWhile_dropWhile_id)

lemma no_ws_run_py_strip: "no_ws_run s \<Longrightarrow> no_ws_run (py_strip s)"
proof -
  assume s: "no_ws_run s"
  let ?u = "dropWhile is_space s"
  have "s = takeWhile is_space s @ ?u" by simp
  with s have u: "no_ws_run ?u" using no_ws_run_append by metis
  then show ?thesis using no_ws_run_append py_strip_prefix [of s] by metis
qed

lemma no_ws_ends_py_strip: "no_ws_ends (py_strip s)"
proof (cases "py_strip s")
  case Nil
  then show ?thesis by (simp add: no_ws_ends_def)
next
  case (Cons c cs)
  let ?u = "dropWhile is_space s"
  let ?v = "dropWhile is_space (rev ?u)"
  have v: "?v \<noteq> []" using Cons by (simp add: py_strip_def)
  then have "\<not> is_space (hd ?v)" by (rule hd_dropWhile)
  then have l: "\<not> is_space (last (py_strip s))"
    using v by (simp add: py_strip_def last_rev)
  have u: "?u \<noteq> []"
  proof
    assume "?u = []"
    then have "?v = []" by (simp only: rev.simps dropWhile.simps)
    with v show False by simp
  qed
  then have hu: "\<not> is_space (hd ?u)" by (rule hd_dropWhile)
  have "hd ?u = c" using Cons py_strip_prefix [of s] by (metis append_Cons list.sel(1))
  with hu l Cons show ?thesis by (simp add: no_ws_ends_def)
qed

text \<open>
  Claim C3. The text normaliser returns the empty string for an absent node, and for every
  node a string without two whitespace characters in a row and without whitespace at its
  start or end.
\<close>

theorem text_of_normalised:
  "text_of None = [] \<and> no_ws_run (text_of el) \<and> no_ws_ends (text_of el)"
proof (cases el)
  case None
  then show ?thesis by (simp add: text_of_def no_ws_ends_def)
next
  case (Some e)
  then show ?thesis
    by (simp add: text_of_def no_ws_run_py_strip no_ws_run_sub_ws no_ws_ends_py_strip)
qed

lemma rsplit_space_head_length: "length (rsplit_space_head s) \<le> length s"
proof -
  have "length (tl (dropWhile (\<lambda>c. c \<noteq> 32) (rev s))) \<le> length s"
    using length_dropWhile_le [of "\<lambda>c. c \<noteq> 32" "rev s"] by simp
  then show ?thesis by (simp add: rsplit_space_head_def)
qed

text \<open>
  Claim C2. With the default bound of 300, \<open>truncate\<close> returns at most 301 characters; a
  string of at most 300 characters comes back unchanged; a string of 301 characters without
  a space is cut after 300 characters and gets the ellipsis.
\<close>

theorem truncate_default_bound:
  "length (truncate_default s) \<le> 301 \<and>
   (length t \<le> 300 \<longrightarrow> truncate_default t = t) \<and>
   (length u = 301 \<and> 32 \<notin> set u \<longrightarrow> truncate_default u = take 300 u @ [8230])"
proof (intro conjI impI)
  have "length (rsplit_space_head (take 300 s)) \<le> 300"
    using rsplit_space_head_length [of "take 300 s"] by simp
  then show "length (truncate_default s) \<le> 301"
    by (simp add: truncate_def slice_to_def)
next
  assume "length t \<le> 300"
  then show "truncate_default t = t" by (simp add: truncate_def)
next
  assume a: "length u = 301 \<and> 32 \<notin> set u"
  then have "32 \<notin> set (take 300 u)" by (meson in_set_takeD)
  with a show "truncate_default u = take 300 u @ [8230]"
    by (simp add: truncate_def slice_to_def rsplit_space_head_def)
qed

theorem truncate_default_bound_witness:
  "truncate_default (py ''abc'') = py ''abc'' \<and>
   truncate_default (replicate 301 97) = take 300 (replicate 301 97) @ [8230] \<and>
   length (truncate_default (replicate 301 97)) \<le> 301"
proof -
  have short: "length (py ''abc'') \<le> 300" by simp
  have long: "length (replicate 301 (97::nat)) = 301 \<and> 32 \<notin> set (replicate 301 (97::nat))"
    by simp
  show ?thesis
    using truncate_default_bound [of "replicate 301 97" "py ''abc''" "replicate 301 97"] short long
    by blast
qed

section \<open>Properties of the card extractors\<close>

text \<open>The definitions that unfold when an extractor is run on a concrete page.\<close>

lemmas dom_eval = select_def select_one_def get_default_def get_def is_space_def
  text_of_def get_text_def py_strip_def startswith_def truncate_def slice_to_def
  rsplit_space_head_def tag_with_attr_def py_or_def el_or_def

text \<open>
  Claim C5. A page with one Q&A card whose id is \<open>q1\<close>, whose question text is
  \<open>#Why does this happen?\<close> and whose body is \<open>Because X causes Y.\<close> gives exactly the
  record with id \<open>qa-q1\<close>, that title without the \<open>#\<close>, the body as content and as excerpt,
  the url \<open>qa#q1\<close>, the type \<open>qa\<close> and the label \<open>Q&A\<close>. For every card the title is the
  normalised question text, without its first character and stripped when that character
  is \<open>#\<close>, and unchanged otherwise.
\<close>

theorem parse_qa_record:
  "(select (has_class (py ''qa-card'')) soup = [c] \<and>
    get c (py ''id'') = Some (py ''q1'') \<and>
    text_of (select_one (has_class (py ''qa-question-text'')) c) = py ''#Why does this happen?'' \<and>
    text_of (select_one (has_class (py ''qa-content'')) c) = py ''Because X causes Y.''
    \<longrightarrow> parse_qa soup =
          [\<lparr>e_id = py ''qa-q1'', e_title = py ''Why does this happen?'',
            e_content = py ''Because X causes Y.'', e_excerpt = py ''Because X causes Y.'',
            e_url = py ''qa#q1'', e_type = py ''qa'', e_type_label = py ''Q&A''\<rparr>]) \<and>
   (text_of (select_one (has_class (py ''qa-question-text'')) k) = 35 # rest
    \<longrightarrow> e_title (qa_entry k) = py_strip rest) \<and>
   (\<not> startswith (text_of (select_one (has_class (py ''qa-question-text'')) k)) (py ''#'')
    \<longrightarrow> e_title (qa_entry k) = text_of (select_one (has_class (py ''qa-question-text'')) k))"
proof (intro conjI impI)
  assume a: "select (has_class (py ''qa-card'')) soup = [c] \<and>
    get c (py ''id'') = Some (py ''q1'') \<and>
    text_of (select_one (has_class (py ''qa-question-text'')) c) = py ''#Why does this happen?'' \<and>
    text_of (select_one (has_class (py ''qa-content'')) c) = py ''Because X causes Y.''"
  have strip: "py_strip (py ''Why does this happen?'') = py ''Why does this happen?''"
    by (simp add: py_strip_def is_space_def)
  from a strip show "parse_qa soup =
          [\<lparr>e_id = py ''qa-q1'', e_title = py ''Why does this happen?'',
            e_content = py ''Because X causes Y.'', e_excerpt = py ''Because X causes Y.'',
            e_url = py ''qa#q1'', e_type = py ''qa'', e_type_label = py ''Q&A''\<rparr>]"
    by (simp add: parse_qa_def qa_entry_def get_default_def startswith_def truncate_def Let_def)
next
  assume "text_of (select_one (has_class (py ''qa-question-text'')) k) = 35 # rest"
  then show "e_title (qa_entry k) = py_strip rest"
    by (simp add: qa_entry_def startswith_def Let_def)
next
  assume "\<not> startswith (text_of (select_one (has_class (py ''qa-question-text'')) k)) (py ''#'')"
  then show "e_title (qa_entry k) = text_of (select_one (has_class (py ''qa-question-text'')) k)"
    by (simp add: qa_entry_def Let_def)
qed


theorem parse_qa_record_witness:
  "parse_qa qa_page =
     [\<lparr>e_id = py ''qa-q1'', e_title = py ''Why does this happen?'',
       e_content = py ''Because X causes Y.'', e_excerpt = py ''Because X causes Y.'',
       e_url = py ''qa#q1'', e_type = py ''qa'', e_type_label = py ''Q&A''\<rparr>] \<and>
   e_title (qa_entry qa_card_q1) = py_strip (py ''Why does this happen?'') \<and>
   e_title (qa_entry (bare_card (py ''qa-card'') (py ''first''))) = []"
proof -
  have cards: "select (has_class (py ''qa-card'')) qa_page = [qa_card_q1]"
    by (simp add: qa_page_def qa_card_q1_def dom_eval)
  have ident: "get qa_card_q1 (py ''id'') = Some (py ''q1'')"
    by (simp add: qa_card_q1_def dom_eval)
  have question: "text_of (select_one (has_class (py ''qa-question-text'')) qa_card_q1) =
      35 # py ''Why does this happen?''"
    by (simp add: qa_card_q1_def dom_eval)
  have answer: "text_of (select_one (has_class (py ''qa-content'')) qa_card_q1) =
      py ''Because X causes Y.''"
    by (simp add: qa_card_q1_def dom_eval)
  have none: "text_of (select_one (has_class (py ''qa-question-text''))
      (bare_card (py ''qa-card'') (py ''first''))) = []"
    by (simp add: bare_card_def dom_eval)
  then have plain: "\<not> startswith (text_of (select_one (has_class (py ''qa-question-text''))
      (bare_card (py ''qa-card'') (py ''first'')))) (py ''#'')"
    by (simp add: startswith_def)
  show ?thesis
    using parse_qa_record [of qa_page qa_card_q1 qa_card_q1 "py ''Why does this happen?''"]
      parse_qa_record [of qa_page qa_card_q1 "bare_card (py ''qa-card'') (py ''first'')"]
      cards ident question answer none plain
    by simp
qed

text \<open>
  Claim C10. A Q&A or argument card without an \<open>id\<close> attribute still gives a record: no
  card is passed over, the id of the record is the type prefix and a hyphen, and the url
  ends with an empty fragment. Two such cards of one page therefore give records with the
  same id.
\<close>

theorem cards_without_id:
  "(get k (py ''id'') = None \<longrightarrow>
      e_id (qa_entry k) = py ''qa-'' \<and> e_url (qa_entry k) = py ''qa#'' \<and>
      e_id (arg_entry page_url type_id type_label k) = type_id @ py ''-'' \<and>
      e_url (arg_entry page_url type_id type_label k) = page_url @ py ''#'') \<and>
   length (parse_qa soup) = length (select (has_class (py ''qa-card'')) soup) \<and>
   length (parse_arg_cards soup page_url type_id type_label) =
     length (select (has_class (py ''arg-card'')) soup) \<and>
   (i < length (select (has_class (py ''qa-card'')) soup) \<and>
    j < length (select (has_class (py ''qa-card'')) soup) \<and>
    get (select (has_class (py ''qa-card'')) soup ! i) (py ''id'') = None \<and>
    get (select (has_class (py ''qa-card'')) soup ! j) (py ''id'') = None \<longrightarrow>
      e_id (parse_qa soup ! i) = e_id (parse_qa soup ! j)) \<and>
   (i < length (select (has_class (py ''arg-card'')) soup) \<and>
    j < length (select (has_class (py ''arg-card'')) soup) \<and>
    get (select (has_class (py ''arg-card'')) soup ! i) (py ''id'') = None \<and>
    get (select (has_class (py ''arg-card'')) soup ! j) (py ''id'') = None \<longrightarrow>
      e_id (parse_arg_cards soup page_url type_id type_label ! i) =
      e_id (parse_arg_cards soup page_url type_id type_label ! j))"
  by (simp add: parse_qa_def parse_arg_cards_def qa_entry_def arg_entry_def get_default_def
      Let_def)

theorem cards_without_id_witness:
  "e_id (qa_entry (bare_card (py ''qa-card'') (py ''first''))) = py ''qa-'' \<and>
   e_url (qa_entry (bare_card (py ''qa-card'') (py ''first''))) = py ''qa#'' \<and>
   e_id (arg_entry (py ''argumentit'') (py ''arg'') (py ''Systeemivirhe'')
           (bare_card (py ''qa-card'') (py ''first''))) = py ''arg-'' \<and>
   e_id (parse_qa (bare_page (py ''qa-card'')) ! 0) =
     e_id (parse_qa (bare_page (py ''qa-card'')) ! 1) \<and>
   length (parse_qa (bare_page (py ''qa-card''))) = 2 \<and>
   e_id (parse_arg_cards (bare_page (py ''arg-card'')) (py ''argumentit'') (py ''arg'')
           (py ''Systeemivirhe'') ! 0) =
     e_id (parse_arg_cards (bare_page (py ''arg-card'')) (py ''argumentit'') (py ''arg'')
           (py ''Systeemivirhe'') ! 1)"
proof -
  have noid: "get (bare_card c b) (py ''id'') = None" for c b
    by (simp add: bare_card_def get_def)
  have qa: "select (has_class (py ''qa-card'')) (bare_page (py ''qa-card'')) =
      [bare_card (py ''qa-card'') (py ''first''), bare_card (py ''qa-card'') (py ''second'')]"
    by (simp add: bare_page_def bare_card_def dom_eval)
  have arg: "select (has_class (py ''arg-card'')) (bare_page (py ''arg-card'')) =
      [bare_card (py ''arg-card'') (py ''first''), bare_card (py ''arg-card'') (py ''second'')]"
    by (simp add: bare_page_def bare_card_def dom_eval)
  show ?thesis
    using cards_without_id [of "bare_card (py ''qa-card'') (py ''first'')"
        "py ''argumentit''" "py ''arg''" "py ''Systeemivirhe''" "bare_page (py ''qa-card'')" 0 1]
      cards_without_id [of "bare_card (py ''qa-card'') (py ''first'')"
        "py ''argumentit''" "py ''arg''" "py ''Systeemivirhe''" "bare_page (py ''arg-card'')" 0 1]
      noid qa arg
    by simp
qed

section \<open>Properties of the essay and contents extractors\<close>

text \<open>
  Claim C6, as stated, fails: the essay extractor looks for \<open>section\<close> elements at any
  depth below the essay body, not among its children only. The body of this page has no
  \<open>section\<close> child, and the page gives the record of a section, not the one of the whole
  body.
\<close>

theorem essay_section_children_counterexample:
  "select_one (has_class (py ''essay-body'')) nested_essay_page = Some nested_essay_body \<and>
   spec_no_section_children nested_essay_body \<and>
   map e_id (parse_essay nested_essay_page (py ''kannustinketju'') (py ''kannustin'')
     (py ''Kannustinketju'')) = [py ''kannustin-s0'']"
  by (simp add: parse_essay_def section_entry_def nested_essay_page_def nested_essay_body_def
      essay_header_def spec_no_section_children_def dom_eval enumerate_eq_zip str_nat.simps Let_def)

text \<open>
  Claim C6, amended. Without an essay body the extractor gives no record. With an essay body
  that has no \<open>section\<close> element at any depth it gives exactly one record: its id is the
  type tag followed by \<open>-full\<close>, its url is the page path, and its title is the text of the
  \<open>h1\<close> of the essay header when there is one and the type label otherwise; with the
  heading \<open>Introduction\<close> the title is \<open>Introduction\<close>.
\<close>

theorem parse_essay_whole_body:
  "(select_one (has_class (py ''essay-body'')) soup = None \<longrightarrow>
      parse_essay soup page_url type_id type_label = []) \<and>
   (select_one (has_class (py ''essay-body'')) soup = Some body \<and>
    select (is_tag (py ''section'')) body = [] \<longrightarrow>
      map e_id (parse_essay soup page_url type_id type_label) = [type_id @ py ''-full''] \<and>
      map e_url (parse_essay soup page_url type_id type_label) = [page_url] \<and>
      map e_title (parse_essay soup page_url type_id type_label) =
        [case select_one_below (has_class (py ''essay-header'')) (is_tag (py ''h1'')) soup of
           Some h1 \<Rightarrow> text_of (Some h1) | None \<Rightarrow> type_label]) \<and>
   (select_one (has_class (py ''essay-body'')) soup = Some body \<and>
    select (is_tag (py ''section'')) body = [] \<and>
    select_one_below (has_class (py ''essay-header'')) (is_tag (py ''h1'')) soup = Some h \<and>
    text_of (Some h) = py ''Introduction'' \<longrightarrow>
      map e_title (parse_essay soup page_url type_id type_label) = [py ''Introduction''])"
  by (simp add: parse_essay_def Let_def split: option.splits)

theorem parse_essay_whole_body_witness:
  "parse_essay empty_page (py ''kannustinketju'') (py ''kannustin'') (py ''Kannustinketju'') = [] \<and>
   map e_id (parse_essay flat_essay_page (py ''kannustinketju'') (py ''kannustin'')
     (py ''Kannustinketju'')) = [py ''kannustin-full''] \<and>
   map e_url (parse_essay flat_essay_page (py ''kannustinketju'') (py ''kannustin'')
     (py ''Kannustinketju'')) = [py ''kannustinketju''] \<and>
   map e_title (parse_essay flat_essay_page (py ''kannustinketju'') (py ''kannustin'')
     (py ''Kannustinketju'')) = [py ''Introduction'']"
proof -
  have absent: "select_one (has_class (py ''essay-body'')) empty_page = None"
    by (simp add: empty_page_def dom_eval)
  have present: "select_one (has_class (py ''essay-body'')) flat_essay_page = Some flat_essay_body"
    by (simp add: flat_essay_page_def flat_essay_body_def essay_header_def dom_eval)
  have nosec: "select (is_tag (py ''section'')) flat_essay_body = []"
    by (simp add: flat_essay_body_def dom_eval)
  have h1: "select_one_below (has_class (py ''essay-header'')) (is_tag (py ''h1'')) flat_essay_page =
      Some (Elem (py ''h1'') [] [Text (py ''Introduction'')])"
    by (simp add: flat_essay_page_def flat_essay_body_def essay_header_def select_one_below_def
        dom_eval)
  have intro: "text_of (Some (Elem (py ''h1'') [] [Text (py ''Introduction'')])) = py ''Introduction''"
    by (simp add: dom_eval)
  show ?thesis
    using parse_essay_whole_body [where soup = empty_page and page_url = "py ''kannustinketju''"
        and type_id = "py ''kannustin''" and type_label = "py ''Kannustinketju''"]
      parse_essay_whole_body [where soup = flat_essay_page and body = flat_essay_body
        and page_url = "py ''kannustinketju''" and type_id = "py ''kannustin''"
        and type_label = "py ''Kannustinketju''"
        and h = "Elem (py ''h1'') [] [Text (py ''Introduction'')]"]
      absent present nosec h1 intro
    by simp
qed

text \<open>
  Claim C7, as stated, fails: the test of the extractor is the prefix \<open>http\<close>, so the
  relative link \<open>http-intro.html\<close> of a chapter, which is no fully-qualified link, is the
  url of its record.
\<close>

theorem toc_url_counterexample:
  "\<not> spec_fully_qualified (py ''http-intro.html'') \<and>
   map e_url (parse_sisallys (toc_page (py ''http-intro.html''))) = [py ''http-intro.html'']"
  by (simp add: spec_fully_qualified_def parse_sisallys_def sisallys_entry_def toc_page_def
      toc_chapter_def toc_link_def dom_eval Let_def)

lemma set_map_filter_iff:
  "y \<in> set (List.map_filter f xs) \<longleftrightarrow> (\<exists>x \<in> set xs. f x = Some y)"
  by (induction xs) (auto split: option.splits)

lemma sisallys_entry_url:
  "sisallys_entry chap = Some e \<Longrightarrow> e_url e = py ''sisallys'' \<or> startswith (e_url e) (py ''http'')"
  by (auto simp: sisallys_entry_def Let_def split: option.splits if_splits)

text \<open>
  Claim C7, amended. For a chapter with a title element the url of the record is the target
  of the link of the title when there is a link and its target starts with \<open>http\<close>, and
  \<open>sisallys\<close> otherwise; a target that does not start with \<open>http\<close> is never the url of a
  record.
\<close>

theorem toc_url_http_prefix:
  "(select_one (has_class (py ''toc-chapter-title'')) chap = Some title_el \<longrightarrow>
      map_option e_url (sisallys_entry chap) =
        Some (case select_one (tag_with_attr (py ''a'') (py ''href'')) title_el of
                None \<Rightarrow> py ''sisallys''
              | Some link \<Rightarrow>
                  if startswith (get_default link (py ''href'') []) (py ''http'')
                  then get_default link (py ''href'') [] else py ''sisallys'')) \<and>
   list_all (\<lambda>e. e_url e = py ''sisallys'' \<or> startswith (e_url e) (py ''http''))
     (parse_sisallys soup)"
proof (intro conjI impI)
  assume "select_one (has_class (py ''toc-chapter-title'')) chap = Some title_el"
  then show "map_option e_url (sisallys_entry chap) =
        Some (case select_one (tag_with_attr (py ''a'') (py ''href'')) title_el of
                None \<Rightarrow> py ''sisallys''
              | Some link \<Rightarrow>
                  if startswith (get_default link (py ''href'') []) (py ''http'')
                  then get_default link (py ''href'') [] else py ''sisallys'')"
    by (simp add: sisallys_entry_def Let_def startswith_def split: option.splits)
next
  show "list_all (\<lambda>e. e_url e = py ''sisallys'' \<or> startswith (e_url e) (py ''http''))
     (parse_sisallys soup)"
    unfolding list_all_iff
  proof
    fix e
    assume "e \<in> set (parse_sisallys soup)"
    then obtain x where "sisallys_entry x = Some e"
      unfolding parse_sisallys_def set_map_filter_iff by blast
    then show "e_url e = py ''sisallys'' \<or> startswith (e_url e) (py ''http'')"
      by (rule sisallys_entry_url)
  qed
qed

theorem toc_url_http_prefix_witness:
  "map e_url (parse_sisallys (toc_page (py ''https://example.org/a''))) =
     [py ''https://example.org/a''] \<and>
   map e_url (parse_sisallys (toc_page (py ''luku1.html''))) = [py ''sisallys''] \<and>
   map_option e_url (sisallys_entry (toc_chapter [Text (py ''Luku 1'')])) = Some (py ''sisallys'')"
proof -
  have title: "select_one (has_class (py ''toc-chapter-title'')) (toc_chapter cs) =
      Some (Elem (py ''div'') [(py ''class'', py ''toc-chapter-title'')] cs)" for cs
    by (simp add: toc_chapter_def dom_eval)
  have link: "select_one (tag_with_attr (py ''a'') (py ''href''))
      (Elem (py ''div'') [(py ''class'', py ''toc-chapter-title'')] [toc_link href]) =
      Some (toc_link href)" for href
    by (simp add: toc_link_def dom_eval)
  have nolink: "select_one (tag_with_attr (py ''a'') (py ''href''))
      (Elem (py ''div'') [(py ''class'', py ''toc-chapter-title'')] [Text (py ''Luku 1'')]) = None"
    by (simp add: dom_eval)
  have href: "get_default (toc_link href) (py ''href'') [] = href" for href
    by (simp add: toc_link_def dom_eval)
  have chapters: "select (has_class (py ''toc-chapter'')) (toc_page href) = [toc_chapter [toc_link href]]"
    for href
    by (simp add: toc_page_def toc_chapter_def toc_link_def dom_eval)
  have a: "map_option e_url (sisallys_entry (toc_chapter [toc_link (py ''https://example.org/a'')])) =
      Some (py ''https://example.org/a'')"
    using toc_url_http_prefix [where chap = "toc_chapter [toc_link (py ''https://example.org/a'')]"
        and title_el = "Elem (py ''div'') [(py ''class'', py ''toc-chapter-title'')]
          [toc_link (py ''https://example.org/a'')]"]
      title link href
    by (simp add: startswith_def)
  have b: "map_option e_url (sisallys_entry (toc_chapter [toc_link (py ''luku1.html'')])) =
      Some (py ''sisallys'')"
    using toc_url_http_prefix [where chap = "toc_chapter [toc_link (py ''luku1.html'')]"
        and title_el = "Elem (py ''div'') [(py ''class'', py ''toc-chapter-title'')]
          [toc_link (py ''luku1.html'')]"]
      title link href
    by (simp add: startswith_def)
  have c: "map_option e_url (sisallys_entry (toc_chapter [Text (py ''Luku 1'')])) =
      Some (py ''sisallys'')"
    using toc_url_http_prefix [where chap = "toc_chapter [Text (py ''Luku 1'')]"
        and title_el = "Elem (py ''div'') [(py ''class'', py ''toc-chapter-title'')]
          [Text (py ''Luku 1'')]"]
      title nolink
    by simp
  from a b c chapters show ?thesis
    by (auto simp: parse_sisallys_def)
qed

section \<open>Properties of the driver\<close>

lemma stage_cong:
  "files1 filename = files2 filename \<Longrightarrow>
   stage parser files1 announce filename extract unit st =
   stage parser files2 announce filename extract unit st"
proof -
  assume "files1 filename = files2 filename"
  then have "load_soup parser files1 filename = load_soup parser files2 filename"
    by (simp add: load_soup_def)
  then show ?thesis
    by (simp only: stage_def)
qed

lemma stages_cong:
  "list_all (\<lambda>p. files1 (fst p) = files2 (fst p)) stage_pages \<Longrightarrow>
   stages parser lower files1 = stages parser lower files2"
  unfolding stages_def stage_pages_def
  by (simp add: stage_cong [of files1 _ files2])

lemma stage_readable:
  "page_readable files filename \<Longrightarrow>
   stage parser files announce filename extract unit (printed, Inr es) =
     (printed @ [announce] @
      (case files filename of
         None \<Rightarrow> [py ''  Skipping '' @ filename @ py '' (not found)'']
       | Some bytes \<Rightarrow>
           [py ''  '' @ str_nat (length (stage_entries parser files filename extract)) @ unit]),
      Inr (es @ stage_entries parser files filename extract))"
  by (auto simp: stage_def load_soup_def read_text_def page_readable_def stage_entries_def
      page_soup_def Let_def split: option.splits)

lemma stage_raised: "stage parser files announce filename extract unit (printed, Inl e) = (printed, Inl e)"
  by (simp add: stage_def)

lemma stage_unreadable:
  "\<not> page_readable files filename \<Longrightarrow>
   stage parser files announce filename extract unit (printed, Inr es) =
     (printed @ [announce], Inl UnicodeDecodeError)"
  by (auto simp: stage_def load_soup_def read_text_def page_readable_def Let_def
      split: option.splits)

lemma stages_readable:
  "pages_readable files \<Longrightarrow> snd (stages parser lower files) = Inr (collected parser lower files)"
  by (simp add: stages_def pages_readable_def stage_pages_def stage_readable collected_def)

lemma stages_unreadable:
  "\<not> pages_readable files \<Longrightarrow> snd (stages parser lower files) = Inl UnicodeDecodeError"
proof -
  assume a: "\<not> pages_readable files"
  show ?thesis
  proof (cases "page_readable files (py ''qa.html'')")
    case False
    then show ?thesis by (simp add: stages_def stage_unreadable stage_raised)
  next
    case qa: True
    show ?thesis
    proof (cases "page_readable files (py ''argumentit.html'')")
      case False
      with qa show ?thesis by (simp add: stages_def stage_readable stage_unreadable stage_raised)
    next
      case arg: True
      show ?thesis
      proof (cases "page_readable files (py ''kielen-valta.html'')")
        case False
        with qa arg show ?thesis
          by (simp add: stages_def stage_readable stage_unreadable stage_raised)
      next
        case kieli: True
        show ?thesis
        proof (cases "page_readable files (py ''kannustinketju.html'')")
          case False
          with qa arg kieli show ?thesis
            by (simp add: stages_def stage_readable stage_unreadable stage_raised)
        next
          case essay: True
          with a qa arg kieli have "\<not> page_readable files (py ''sanakirja.html'')"
            by (simp add: pages_readable_def stage_pages_def)
          with qa arg kieli essay show ?thesis
            by (simp add: stages_def stage_readable stage_unreadable stage_raised)
        qed
      qed
    qed
  qed
qed

lemma stages_Inr:
  "snd (stages parser lower files) = Inr es \<Longrightarrow> pages_readable files \<and> es = collected parser lower files"
  using stages_readable [of files parser lower] stages_unreadable [of files parser lower]
  by (cases "pages_readable files") simp_all


lemma page_soup_missing: "files filename = None \<Longrightarrow> page_soup parser files filename = None"
  by (simp add: page_soup_def)











lemma main_readable:
  "pages_readable files \<Longrightarrow>
   main parser lower files =
     (fst (stages parser lower files),
      write_text files OUTPUT (json_dumps False 1 True (map items (collected parser lower files))))"
  by (simp add: main_def Let_def stages_readable)

lemma main_unreadable:
  "\<not> pages_readable files \<Longrightarrow>
   main parser lower files = (fst (stages parser lower files), files, Some UnicodeDecodeError)"
  by (simp add: main_def Let_def stages_unreadable)




lemma write_text_twice:
  "write_text (fst (write_text files path s)) path s = write_text files path s"
  by (simp add: write_text_def split: option.splits)

lemma main_twice:
  "files' = fst (snd (main parser lower files)) \<Longrightarrow> main parser lower files' = main parser lower files"
proof -
  assume after: "files' = fst (snd (main parser lower files))"
  have "list_all (\<lambda>p. fst (snd (main parser lower files)) (fst p) = files (fst p)) stage_pages"
    by (simp add: main_def Let_def write_text_def stage_pages_def OUTPUT_def
        split: sum.splits option.splits)
  with after have same: "stages parser lower files' = stages parser lower files"
    using stages_cong [of files' files parser lower] by simp
  show ?thesis
  proof (cases "snd (stages parser lower files)")
    case (Inl e)
    with after have "files' = files" by (simp add: main_def)
    then show ?thesis by simp
  next
    case (Inr es)
    with after have "files' = fst (write_text files OUTPUT (json_dumps False 1 True (map items es)))"
      by (simp add: main_def)
    then have "write_text files' OUTPUT (json_dumps False 1 True (map items es)) =
        write_text files OUTPUT (json_dumps False 1 True (map items es))"
      by (simp only: write_text_twice)
    with Inr same show ?thesis
      by (simp add: main_def)
  qed
qed

text \<open>
  Claim C4. The printed lines, the exception that ends the run, if any, and the bytes of
  the output file that a run writes are a function of the contents of the five page files:
  two site directories that agree on them give the same lines and the same exception,
  and, when the pages can be read so that the write is reached, the same output file,
  whatever else the directories hold, the old output file included. A second run on the
  directory that the first run has left gives the same lines, the same exception and the
  same directory.
\<close>

theorem main_function_of_pages:
  "(list_all (\<lambda>p. files1 (fst p) = files2 (fst p)) stage_pages \<longrightarrow>
      fst (main parser lower files1) = fst (main parser lower files2) \<and>
      snd (snd (main parser lower files1)) = snd (snd (main parser lower files2)) \<and>
      (pages_readable files1 \<longrightarrow>
         fst (snd (main parser lower files1)) OUTPUT =
         fst (snd (main parser lower files2)) OUTPUT)) \<and>
   main parser lower (fst (snd (main parser lower files))) = main parser lower files"
proof (intro conjI impI)
  assume a: "list_all (\<lambda>p. files1 (fst p) = files2 (fst p)) stage_pages"
  show "fst (main parser lower files1) = fst (main parser lower files2)"
    by (simp add: main_def Let_def stages_cong [OF a] split: sum.splits)
  show "snd (snd (main parser lower files1)) = snd (snd (main parser lower files2))"
    by (simp add: main_def Let_def stages_cong [OF a] write_text_def split: sum.splits option.splits)
  show "fst (snd (main parser lower files1)) OUTPUT = fst (snd (main parser lower files2)) OUTPUT"
    if "pages_readable files1"
    using that stages_readable [OF that, of parser lower]
    by (simp add: main_def Let_def stages_cong [OF a, symmetric] write_text_def
        split: sum.splits option.splits)
next
  show "main parser lower (fst (snd (main parser lower files))) = main parser lower files"
    by (rule main_twice) simp
qed

theorem main_function_of_pages_witness:
  "list_all (\<lambda>p. example_site (fst p) = (example_site(OUTPUT \<mapsto> [9, 9])) (fst p)) stage_pages \<and>
   pages_readable example_site \<and>
   fst (main example_parser ascii_lower example_site) =
     fst (main example_parser ascii_lower (example_site(OUTPUT \<mapsto> [9, 9]))) \<and>
   snd (snd (main example_parser ascii_lower example_site)) =
     snd (snd (main example_parser ascii_lower (example_site(OUTPUT \<mapsto> [9, 9])))) \<and>
   fst (snd (main example_parser ascii_lower example_site)) OUTPUT =
     fst (snd (main example_parser ascii_lower (example_site(OUTPUT \<mapsto> [9, 9])))) OUTPUT \<and>
   main example_parser ascii_lower (fst (snd (main example_parser ascii_lower example_site))) =
     main example_parser ascii_lower example_site"
proof -
  have agree: "list_all (\<lambda>p. example_site (fst p) = (example_site(OUTPUT \<mapsto> [9, 9])) (fst p))
      stage_pages"
    by (simp add: stage_pages_def OUTPUT_def)
  have readable: "pages_readable example_site"
    by (simp add: pages_readable_def page_readable_def stage_pages_def example_site_def)
  show ?thesis
    using main_function_of_pages [of example_site "example_site(OUTPUT \<mapsto> [9, 9])"
        example_parser ascii_lower example_site] agree readable
    by blast
qed

section \<open>Properties of the serialiser\<close>

lemma sorted_items:
  "sort_key fst (items e) =
     [(py ''content'', e_content e), (py ''excerpt'', e_excerpt e), (py ''id'', e_id e),
      (py ''title'', e_title e), (py ''type'', e_type e), (py ''type_label'', e_type_label e),
      (py ''url'', e_url e)]"
  by (simp add: items_def)

lemma dumps_dict_entry: "dumps_dict False 1 True 1 (items e) = entry_json e"
  unfolding dumps_dict_def sorted_items
  by (simp add: items_def entry_json_def newline_indent_def eval_nat_numeral)

lemma dumps_dict_entry_Suc: "dumps_dict False (Suc 0) True (Suc 0) (items e) = entry_json e"
  using dumps_dict_entry [of e] by simp

text \<open>
  Claim C9, as stated, fails in its indentation: \<open>indent=1\<close> gives one space for each
  nesting level, so the line that opens a record is indented by a single space.
\<close>

theorem json_indent_counterexample:
  "\<not> spec_multi_space_indent (json_dumps False 1 True [items example_entry]) \<and>
   lines_of [] (json_dumps False 1 True [items example_entry]) ! 1 = py '' {''"
  by (simp add: spec_multi_space_indent_def json_dumps_def dumps_dict_entry_Suc entry_json_def
      example_entry_def encode_str_def escape_char_def newline_indent_def startswith_def)

text \<open>
  Claim C9, amended. When the pages can be read and the JSON text has a UTF-8 encoding, the
  run stores that encoding at the output path, whatever was there, and raises nothing; it
  leaves every other file as it was. The text is \<open>[]\<close> for no record; otherwise it is an
  array with each record after a line feed and one space, its keys in alphabetical order
  after two spaces. Inside a string every character from U+0020 on, other than the quote
  and the backslash, stands for itself, those outside ASCII too. A text with a surrogate
  has no encoding: the write raises and leaves the output file empty. When a page cannot
  be read, the write is not reached and no file changes.
\<close>

theorem main_writes_json:
  "(pages_readable files \<and>
    list_all encodable (json_dumps False 1 True (map items (collected parser lower files))) \<longrightarrow>
      fst (snd (main parser lower files)) OUTPUT =
        Some (concat (map utf8_char
          (json_dumps False 1 True (map items (collected parser lower files))))) \<and>
      snd (snd (main parser lower files)) = None) \<and>
   (pages_readable files \<and>
    \<not> list_all encodable (json_dumps False 1 True (map items (collected parser lower files))) \<longrightarrow>
      snd (main parser lower files) = (files(OUTPUT \<mapsto> []), Some UnicodeEncodeError)) \<and>
   (\<not> pages_readable files \<longrightarrow>
      snd (main parser lower files) = (files, Some UnicodeDecodeError)) \<and>
   (f \<noteq> OUTPUT \<longrightarrow> fst (snd (main parser lower files)) f = files f) \<and>
   json_dumps False 1 True (map items []) = py ''[]'' \<and>
   (es \<noteq> [] \<longrightarrow>
      json_dumps False 1 True (map items es) =
        py ''['' @ [10, 32] @ py_join (py '','' @ [10, 32]) (map entry_json es) @ [10] @ py '']'') \<and>
   (32 \<le> c \<and> c \<noteq> 34 \<and> c \<noteq> 92 \<longrightarrow> escape_char False c = [c])"
proof (intro conjI impI)
  assume a: "pages_readable files \<and>
    list_all encodable (json_dumps False 1 True (map items (collected parser lower files)))"
  then show "fst (snd (main parser lower files)) OUTPUT =
        Some (concat (map utf8_char
          (json_dumps False 1 True (map items (collected parser lower files)))))"
    by (simp add: main_readable write_text_def utf8_encode_def)
  from a show "snd (snd (main parser lower files)) = None"
    by (simp add: main_readable write_text_def utf8_encode_def)
next
  assume "pages_readable files \<and>
    \<not> list_all encodable (json_dumps False 1 True (map items (collected parser lower files)))"
  then show "snd (main parser lower files) = (files(OUTPUT \<mapsto> []), Some UnicodeEncodeError)"
    by (simp add: main_readable write_text_def utf8_encode_def)
next
  assume "\<not> pages_readable files"
  then show "snd (main parser lower files) = (files, Some UnicodeDecodeError)"
    by (simp add: main_unreadable)
next
  show "fst (snd (main parser lower files)) f = files f" if "f \<noteq> OUTPUT"
    using that by (simp add: main_def Let_def write_text_def split: sum.splits option.splits)
  show "json_dumps False 1 True (map items []) = py ''[]''"
    by (simp add: json_dumps_def)
  show "json_dumps False 1 True (map items es) =
        py ''['' @ [10, 32] @ py_join (py '','' @ [10, 32]) (map entry_json es) @ [10] @ py '']''"
    if "es \<noteq> []"
    using that by (simp add: json_dumps_def newline_indent_def dumps_dict_entry_Suc comp_def)
  show "escape_char False c = [c]" if "32 \<le> c \<and> c \<noteq> 34 \<and> c \<noteq> 92"
    using that by (simp add: escape_char_def)
qed

theorem main_writes_json_witness:
  "pages_readable example_site \<and>
   list_all encodable
     (json_dumps False 1 True (map items (collected example_parser ascii_lower example_site))) \<and>
   fst (snd (main example_parser ascii_lower example_site)) OUTPUT =
     Some (concat (map utf8_char
       (json_dumps False 1 True (map items (collected example_parser ascii_lower example_site))))) \<and>
   snd (snd (main example_parser ascii_lower example_site)) = None \<and>
   \<not> pages_readable latin1_site \<and>
   snd (main example_parser ascii_lower latin1_site) = (latin1_site, Some UnicodeDecodeError) \<and>
   fst (snd (main example_parser ascii_lower example_site)) (py ''notes.txt'') = Some [1, 2] \<and>
   json_dumps False 1 True (map items [example_entry]) =
     py ''['' @ [10, 32] @ entry_json example_entry @ [10] @ py '']'' \<and>
   escape_char False 228 = [228] \<and>
   utf8_encode (encode_str False (e_title example_entry)) =
     Some [34, 77, 105, 107, 115, 105, 32, 110, 195, 164, 105, 110, 63, 34]"
proof -
  have readable: "pages_readable example_site"
    by (simp add: pages_readable_def page_readable_def stage_pages_def example_site_def)
  have unreadable: "\<not> pages_readable latin1_site"
    by (simp add: pages_readable_def page_readable_def stage_pages_def latin1_site_def)
  have records: "collected example_parser ascii_lower example_site = [qa_entry qa_card_q1]"
    by (simp add: collected_def stage_entries_def page_soup_def read_text_def example_site_def
        example_parser_def parse_qa_def parse_terms_def qa_page_def qa_card_q1_def
        empty_page_def dom_eval)
  have enc: "list_all encodable (json_dumps False 1 True (map items [qa_entry qa_card_q1]))"
    by (simp add: json_dumps_def dumps_dict_def items_def encode_str_def
        escape_char_def newline_indent_def encodable_def qa_entry_def qa_card_q1_def dom_eval
        Let_def)
  have other: "py ''notes.txt'' \<noteq> OUTPUT"
    by (simp add: OUTPUT_def)
  have kept: "example_site (py ''notes.txt'') = Some [1, 2]"
    by (simp add: example_site_def)
  have bytes: "utf8_encode (encode_str False (e_title example_entry)) =
     Some [34, 77, 105, 107, 115, 105, 32, 110, 195, 164, 105, 110, 63, 34]"
    by (simp add: example_entry_def encode_str_def escape_char_def utf8_encode_def utf8_char_def
        encodable_def)
  show ?thesis
    using main_writes_json [of example_site example_parser ascii_lower "py ''notes.txt''"
        "[example_entry]" 228]
      main_writes_json [of latin1_site example_parser ascii_lower "py ''notes.txt''"
        "[example_entry]" 228]
      readable unreadable records enc other kept bytes
    by simp
qed

section \<open>Uniqueness of the ids\<close>

lemma digits_value_str_nat: "digits_value (str_nat n) = n"
proof (induction n rule: str_nat.induct)
  case (1 n)
  show ?case
  proof (cases "n < 10")
    case True
    then show ?thesis by (simp add: str_nat.simps [of n] digits_value_def)
  next
    case False
    with "1" have "digits_value (str_nat (n div 10)) = n div 10" by simp
    with False show ?thesis
      by (simp add: str_nat.simps [of n] digits_value_def)
  qed
qed

lemma inj_str_nat: "inj str_nat"
  by (rule inj_on_inverseI [where g = digits_value]) (simp add: digits_value_str_nat)

lemma distinct_map_prefix: "distinct (map (\<lambda>x. p @ f x) xs) \<longleftrightarrow> distinct (map f xs)"
  by (induction xs) auto

lemma distinct_get_default:
  "list_all (\<lambda>el. get el k \<noteq> None) els \<Longrightarrow> distinct (map (\<lambda>el. get el k) els) \<Longrightarrow>
   distinct (map (\<lambda>el. get_default el k d) els)"
proof (induction els)
  case Nil
  then show ?case by simp
next
  case (Cons a els)
  have "get_default a k d \<noteq> get_default b k d" if "b \<in> set els" for b
  proof -
    from that Cons.prems have "get a k \<noteq> get b k" "get a k \<noteq> None" "get b k \<noteq> None"
      by (auto simp: list_all_iff)
    then show ?thesis by (auto simp: get_default_def)
  qed
  with Cons show ?case by auto
qed

lemma parse_qa_ids:
  "map e_id (parse_qa soup) =
     map (\<lambda>el. py ''qa-'' @ get_default el (py ''id'') []) (select (has_class (py ''qa-card'')) soup)"
  by (simp add: parse_qa_def qa_entry_def Let_def)

lemma parse_arg_cards_ids:
  "map e_id (parse_arg_cards soup page_url type_id type_label) =
     map (\<lambda>el. (type_id @ py ''-'') @ get_default el (py ''id'') [])
       (select (has_class (py ''arg-card'')) soup)"
  by (simp add: parse_arg_cards_def arg_entry_def Let_def)

lemma parse_qa_distinct:
  "spec_distinct_ids (py ''qa-card'') soup \<Longrightarrow> distinct (map e_id (parse_qa soup))"
  unfolding parse_qa_ids distinct_map_prefix spec_distinct_ids_def
  by (simp add: distinct_get_default)

lemma parse_arg_cards_distinct:
  "spec_distinct_ids (py ''arg-card'') soup \<Longrightarrow>
   distinct (map e_id (parse_arg_cards soup page_url type_id type_label))"
  unfolding parse_arg_cards_ids distinct_map_prefix spec_distinct_ids_def
  by (simp add: distinct_get_default)

lemma section_entry_id:
  "e_id (section_entry page_url type_id type_label p) = (type_id @ py ''-s'') @ str_nat (fst p)"
  by (simp add: section_entry_def Let_def)

lemma parse_essay_distinct: "distinct (map e_id (parse_essay soup page_url type_id type_label))"
proof -
  have "distinct (map (\<lambda>p. (type_id @ py ''-s'') @ str_nat (fst p)) (enumerate 0 secs))"
    for secs :: "node list"
  proof -
    have "map (\<lambda>p. str_nat (fst p)) (enumerate 0 secs) = map str_nat (map fst (enumerate 0 secs))"
      by (simp only: map_map comp_def)
    also have "\<dots> = map str_nat [0..<length secs]"
      by (simp only: map_fst_enumerate add_0)
    finally have eq: "map (\<lambda>p. str_nat (fst p)) (enumerate 0 secs) = map str_nat [0..<length secs]" .
    have "distinct (map str_nat [0..<length secs])"
      by (simp add: distinct_map inj_on_subset [OF inj_str_nat])
    with eq have "distinct (map (\<lambda>p. str_nat (fst p)) (enumerate 0 secs))"
      by (simp only:)
    then show ?thesis
      by (simp only: distinct_map_prefix)
  qed
  then show ?thesis
    by (simp add: parse_essay_def Let_def section_entry_id comp_def split: option.splits)
qed

lemma term_entry_ids:
  "map e_id (List.map_filter (term_entry lower) xs) =
     map (\<lambda>h3. py ''term-'' @ py_replace (lower (text_of (Some h3))) (py '' '') (py ''-''))
       (List.map_filter (select_one (is_tag (py ''h3''))) xs)"
  by (induction xs) (simp_all add: term_entry_def Let_def split: option.splits)

lemma parse_terms_ids:
  "map e_id (parse_terms lower soup) = map (\<lambda>k. py ''term-'' @ k) (term_keys lower soup)"
  by (simp add: parse_terms_def term_keys_def term_entry_ids comp_def)

lemma parse_terms_distinct:
  "distinct (term_keys lower soup) \<Longrightarrow> distinct (map e_id (parse_terms lower soup))"
  by (simp add: parse_terms_ids distinct_map inj_on_def)

lemma parse_qa_prefix: "e \<in> set (parse_qa soup) \<Longrightarrow> take 2 (e_id e) = py ''qa''"
  by (auto simp: parse_qa_def qa_entry_def Let_def)

lemma parse_arg_cards_prefix:
  "e \<in> set (parse_arg_cards soup page_url type_id type_label) \<Longrightarrow> 2 \<le> length type_id \<Longrightarrow>
   take 2 (e_id e) = take 2 type_id"
  by (auto simp: parse_arg_cards_def arg_entry_def Let_def)

lemma parse_essay_prefix:
  "e \<in> set (parse_essay soup page_url type_id type_label) \<Longrightarrow> 2 \<le> length type_id \<Longrightarrow>
   take 2 (e_id e) = take 2 type_id"
  by (auto simp: parse_essay_def section_entry_def Let_def split: option.splits if_splits)

lemma parse_terms_prefix: "e \<in> set (parse_terms lower soup) \<Longrightarrow> take 2 (e_id e) = py ''te''"
  by (auto simp: parse_terms_def term_entry_def Let_def set_map_filter_iff split: option.splits)

lemma disjoint_by_prefix:
  "(\<And>e. e \<in> set xs \<Longrightarrow> take 2 (e_id e) = p) \<Longrightarrow> (\<And>e. e \<in> set ys \<Longrightarrow> take 2 (e_id e) = q) \<Longrightarrow>
   p \<noteq> q \<Longrightarrow> set (map e_id xs) \<inter> set (map e_id ys) = {}"
  by force

text \<open>
  Claim C1, amended. When on each page the Q&A cards and the argument cards carry distinct
  \<open>id\<close> attributes and the keys of the glossary terms are pairwise distinct, no two records
  that the stages collect have the same id, so none of the output has.
\<close>

theorem ids_distinct:
  "spec_page_ids parser files (py ''qa.html'') (py ''qa-card'') \<and>
   spec_page_ids parser files (py ''argumentit.html'') (py ''arg-card'') \<and>
   spec_page_ids parser files (py ''kielen-valta.html'') (py ''arg-card'') \<and>
   distinct_term_keys parser lower files \<longrightarrow>
     distinct (map e_id (collected parser lower files)) \<and>
     (snd (stages parser lower files) = Inr es \<longrightarrow> distinct (map e_id es))"
proof
  assume a: "spec_page_ids parser files (py ''qa.html'') (py ''qa-card'') \<and>
   spec_page_ids parser files (py ''argumentit.html'') (py ''arg-card'') \<and>
   spec_page_ids parser files (py ''kielen-valta.html'') (py ''arg-card'') \<and>
   distinct_term_keys parser lower files"
  define qa where "qa = stage_entries parser files (py ''qa.html'') parse_qa"
  define arg where "arg = stage_entries parser files (py ''argumentit.html'')
       (\<lambda>soup. parse_arg_cards soup (py ''argumentit'') (py ''arg'') (py ''Systeemivirhe''))"
  define kieli where "kieli = stage_entries parser files (py ''kielen-valta.html'')
       (\<lambda>soup. parse_arg_cards soup (py ''kielen-valta'') (py ''kieli'') (py ''Kielen valta''))"
  define essay where "essay = stage_entries parser files (py ''kannustinketju.html'')
       (\<lambda>soup. parse_essay soup (py ''kannustinketju'') (py ''kannustin'') (py ''Kannustinketju''))"
  define terms where "terms = stage_entries parser files (py ''sanakirja.html'') (parse_terms lower)"
  have all: "collected parser lower files = qa @ arg @ kieli @ essay @ terms"
    unfolding collected_def qa_def arg_def kieli_def essay_def terms_def ..
  have d_qa: "distinct (map e_id qa)"
    using a unfolding qa_def stage_entries_def spec_page_ids_def
    by (cases "page_soup parser files (py ''qa.html'')") (simp_all add: parse_qa_distinct)
  have d_arg: "distinct (map e_id arg)"
    using a unfolding arg_def stage_entries_def spec_page_ids_def
    by (cases "page_soup parser files (py ''argumentit.html'')") (simp_all add: parse_arg_cards_distinct)
  have d_kieli: "distinct (map e_id kieli)"
    using a unfolding kieli_def stage_entries_def spec_page_ids_def
    by (cases "page_soup parser files (py ''kielen-valta.html'')") (simp_all add: parse_arg_cards_distinct)
  have d_essay: "distinct (map e_id essay)"
    unfolding essay_def stage_entries_def
    by (cases "page_soup parser files (py ''kannustinketju.html'')") (simp_all add: parse_essay_distinct)
  have d_terms: "distinct (map e_id terms)"
    using a unfolding terms_def stage_entries_def distinct_term_keys_def
    by (cases "page_soup parser files (py ''sanakirja.html'')") (simp_all add: parse_terms_distinct)
  have p_qa: "take 2 (e_id e) = py ''qa''" if "e \<in> set qa" for e
    using that unfolding qa_def stage_entries_def
    by (cases "page_soup parser files (py ''qa.html'')") (simp_all add: parse_qa_prefix)
  have p_arg: "take 2 (e_id e) = py ''ar''" if "e \<in> set arg" for e
    using that unfolding arg_def stage_entries_def
    by (cases "page_soup parser files (py ''argumentit.html'')") (auto dest: parse_arg_cards_prefix)
  have p_kieli: "take 2 (e_id e) = py ''ki''" if "e \<in> set kieli" for e
    using that unfolding kieli_def stage_entries_def
    by (cases "page_soup parser files (py ''kielen-valta.html'')") (auto dest: parse_arg_cards_prefix)
  have p_essay: "take 2 (e_id e) = py ''ka''" if "e \<in> set essay" for e
    using that unfolding essay_def stage_entries_def
    by (cases "page_soup parser files (py ''kannustinketju.html'')") (auto dest: parse_essay_prefix)
  have p_terms: "take 2 (e_id e) = py ''te''" if "e \<in> set terms" for e
    using that unfolding terms_def stage_entries_def
    by (cases "page_soup parser files (py ''sanakirja.html'')") (simp_all add: parse_terms_prefix)
  have x1: "set (map e_id qa) \<inter> set (map e_id arg) = {}"
    by (rule disjoint_by_prefix [OF p_qa p_arg]) simp_all
  have x2: "set (map e_id qa) \<inter> set (map e_id kieli) = {}"
    by (rule disjoint_by_prefix [OF p_qa p_kieli]) simp_all
  have x3: "set (map e_id qa) \<inter> set (map e_id essay) = {}"
    by (rule disjoint_by_prefix [OF p_qa p_essay]) simp_all
  have x4: "set (map e_id qa) \<inter> set (map e_id terms) = {}"
    by (rule disjoint_by_prefix [OF p_qa p_terms]) simp_all
  have x5: "set (map e_id arg) \<inter> set (map e_id kieli) = {}"
    by (rule disjoint_by_prefix [OF p_arg p_kieli]) simp_all
  have x6: "set (map e_id arg) \<inter> set (map e_id essay) = {}"
    by (rule disjoint_by_prefix [OF p_arg p_essay]) simp_all
  have x7: "set (map e_id arg) \<inter> set (map e_id terms) = {}"
    by (rule disjoint_by_prefix [OF p_arg p_terms]) simp_all
  have x8: "set (map e_id kieli) \<inter> set (map e_id essay) = {}"
    by (rule disjoint_by_prefix [OF p_kieli p_essay]) simp_all
  have x9: "set (map e_id kieli) \<inter> set (map e_id terms) = {}"
    by (rule disjoint_by_prefix [OF p_kieli p_terms]) simp_all
  have x10: "set (map e_id essay) \<inter> set (map e_id terms) = {}"
    by (rule disjoint_by_prefix [OF p_essay p_terms]) simp_all
  have d: "distinct (map e_id (collected parser lower files))"
    unfolding all map_append distinct_append set_append
    using d_qa d_arg d_kieli d_essay d_terms x1 x2 x3 x4 x5 x6 x7 x8 x9 x10
    by (simp only: Int_Un_distrib Un_empty simp_thms)
  show "distinct (map e_id (collected parser lower files)) \<and>
     (snd (stages parser lower files) = Inr es \<longrightarrow> distinct (map e_id es))"
    using d stages_Inr [of parser lower files es] by blast
qed

text \<open>
  Claim C1, as stated, fails: the id of a glossary record is made from the heading of the
  term, not from its \<open>id\<close> attribute. Two terms with the attributes \<open>t1\<close> and \<open>t2\<close> and the
  same heading give two records with the same id.
\<close>

theorem ids_repeated_counterexample:
  "spec_valid_input glossary_parser repeated_term_site \<and>
   snd (stages glossary_parser ascii_lower repeated_term_site) =
     Inr (collected glossary_parser ascii_lower repeated_term_site) \<and>
   map e_id (collected glossary_parser ascii_lower repeated_term_site) =
     [py ''term-valta'', py ''term-valta''] \<and>
   \<not> distinct (map e_id (collected glossary_parser ascii_lower repeated_term_site))"
proof -
  have soup: "page_soup glossary_parser repeated_term_site (py ''sanakirja.html'') =
      Some (glossary_page (py ''Valta'') (py ''Valta''))"
    by (simp add: page_soup_def read_text_def repeated_term_site_def glossary_parser_def)
  have none: "f \<noteq> py ''sanakirja.html'' \<Longrightarrow> page_soup glossary_parser repeated_term_site f = None"
    for f
    by (simp add: page_soup_def repeated_term_site_def)
  have ids: "map e_id (collected glossary_parser ascii_lower repeated_term_site) =
     [py ''term-valta'', py ''term-valta'']"
    by (simp add: collected_def stage_entries_def soup [simplified] none [simplified]
        glossary_page_def glossary_term_def parse_terms_def term_entry_def ascii_lower_def
        dom_eval Let_def)
  have valid: "spec_valid_input glossary_parser repeated_term_site"
    by (simp add: spec_valid_input_def spec_page_ids_def spec_distinct_ids_def soup [simplified] none [simplified]
        glossary_page_def glossary_term_def dom_eval)
  have readable: "pages_readable repeated_term_site"
    by (simp add: pages_readable_def page_readable_def stage_pages_def repeated_term_site_def)
  from ids valid stages_readable [OF readable, of glossary_parser ascii_lower]
  show ?thesis by simp
qed

theorem ids_distinct_witness:
  "spec_page_ids glossary_parser distinct_term_site (py ''qa.html'') (py ''qa-card'') \<and>
   spec_page_ids glossary_parser distinct_term_site (py ''argumentit.html'') (py ''arg-card'') \<and>
   spec_page_ids glossary_parser distinct_term_site (py ''kielen-valta.html'') (py ''arg-card'') \<and>
   distinct_term_keys glossary_parser ascii_lower distinct_term_site \<and>
   snd (stages glossary_parser ascii_lower distinct_term_site) =
     Inr (collected glossary_parser ascii_lower distinct_term_site) \<and>
   map e_id (collected glossary_parser ascii_lower distinct_term_site) =
     [py ''qa-q1'', py ''term-valta'', py ''term-voima''] \<and>
   distinct (map e_id (collected glossary_parser ascii_lower distinct_term_site))"
proof -
  have qa_soup: "page_soup glossary_parser distinct_term_site (py ''qa.html'') = Some qa_page"
    by (simp add: page_soup_def read_text_def distinct_term_site_def glossary_parser_def)
  have term_soup: "page_soup glossary_parser distinct_term_site (py ''sanakirja.html'') =
      Some (glossary_page (py ''Valta'') (py ''Voima''))"
    by (simp add: page_soup_def read_text_def distinct_term_site_def glossary_parser_def)
  have none: "f \<noteq> py ''sanakirja.html'' \<Longrightarrow> f \<noteq> py ''qa.html'' \<Longrightarrow>
      page_soup glossary_parser distinct_term_site f = None" for f
    by (simp add: page_soup_def distinct_term_site_def)
  have qa: "spec_page_ids glossary_parser distinct_term_site (py ''qa.html'') (py ''qa-card'')"
    by (simp add: spec_page_ids_def spec_distinct_ids_def qa_soup [simplified] qa_page_def qa_card_q1_def
        dom_eval)
  have arg: "spec_page_ids glossary_parser distinct_term_site (py ''argumentit.html'') (py ''arg-card'')"
    by (simp add: spec_page_ids_def none [simplified])
  have kieli: "spec_page_ids glossary_parser distinct_term_site (py ''kielen-valta.html'') (py ''arg-card'')"
    by (simp add: spec_page_ids_def none [simplified])
  have terms: "distinct_term_keys glossary_parser ascii_lower distinct_term_site"
    by (simp add: distinct_term_keys_def term_keys_def term_soup [simplified]
        glossary_page_def glossary_term_def ascii_lower_def dom_eval)
  have readable: "pages_readable distinct_term_site"
    by (simp add: pages_readable_def page_readable_def stage_pages_def distinct_term_site_def)
  have ids: "map e_id (collected glossary_parser ascii_lower distinct_term_site) =
     [py ''qa-q1'', py ''term-valta'', py ''term-voima'']"
    by (simp add: collected_def stage_entries_def qa_soup [simplified] term_soup [simplified] none [simplified]
        parse_qa_def qa_entry_def qa_page_def qa_card_q1_def
        glossary_page_def glossary_term_def parse_terms_def term_entry_def ascii_lower_def
        dom_eval Let_def)
  show ?thesis
    using ids_distinct [of glossary_parser distinct_term_site ascii_lower
        "collected glossary_parser ascii_lower distinct_term_site"]
      qa arg kieli terms ids stages_readable [OF readable, of glossary_parser ascii_lower]
    by blast
qed

end
